theory Spec2Isabelle
  imports Complex_Main "HOL-Library.Multiset" "HOL-Library.Log_Nat"
begin

section \<open>Errors, precisions and arrays\<close>

text \<open>
  The exceptions that the two classes of \<^verbatim>\<open>keras/data_generator.py\<close> can raise:
  the failed \<^verbatim>\<open>assert\<close> (with its message), a file that \<^verbatim>\<open>h5py.File\<close> cannot open
  (with its path), a variable missing from a file (with its name), an index out of range,
  a shape that numpy or h5py refuses, and the division by a zero batch size.
\<close>

datatype error =
    AssertionError string
  | IOError string
  | KeyError string
  | IndexError
  | ValueError
  | ZeroDivisionError

definition ebind :: "error + 'a \<Rightarrow> ('a \<Rightarrow> error + 'b) \<Rightarrow> error + 'b" where
  "ebind m f = (case m of Inl e \<Rightarrow> Inl e | Inr x \<Rightarrow> f x)"

text \<open>
  The floating-point precisions (numpy's \<^verbatim>\<open>dtype\<close>). The code reads the statistics
  with \<^verbatim>\<open>.value\<close>, which h5py has only with the numpy versions before 2, and the
  precision of a result is theirs: an operation on two arrays yields the wider of the
  two precisions, and one on an array and a scalar keeps the precision of the array,
  unless the scalar is beyond the range of that precision. The values themselves are of
  an arbitrary type \<open>'a\<close> whose \<open>-\<close>, \<open>/\<close> and \<open>*\<close> stand for numpy's arithmetic; the
  conversion of one value to a precision, \<^verbatim>\<open>np.asarray(f, dtype=...)\<close>, is a parameter
  \<open>cast\<close> of the model.
\<close>

datatype dtype = Float16 | Float32 | Float64

fun dtype_bits :: "dtype \<Rightarrow> nat" where
  "dtype_bits Float16 = 16"
| "dtype_bits Float32 = 32"
| "dtype_bits Float64 = 64"

definition promote :: "dtype \<Rightarrow> dtype \<Rightarrow> dtype" where
  "promote a b = (if dtype_bits a \<le> dtype_bits b then b else a)"

text \<open>
  A two-dimensional array is the list of its rows together with the extent of axis 1
  (which the rows alone would lose when there is no row). A stored variable or a numpy
  array of the loaders has rank 0, 1 or 2; \<^verbatim>\<open>np.stack\<close> builds the only rank-3 array.
\<close>

record 'a mat =
  mdtype :: dtype
  ncols :: nat
  mrows :: "'a list list"

datatype 'a ndarray = Arr0 dtype 'a | Arr1 dtype "'a list" | Arr2 "'a mat"

record 'a arr3 =
  cdtype :: dtype
  cshape :: "nat \<times> nat"
  cdata :: "'a list list list"

definition nrows :: "'a mat \<Rightarrow> nat" where
  "nrows m = length (mrows m)"

definition rect :: "'a mat \<Rightarrow> bool" where
  "rect m = list_all (\<lambda>r. length r = ncols m) (mrows m)"

subsection \<open>h5py files\<close>

type_synonym 'a h5file = "string \<rightharpoonup> 'a ndarray"
type_synonym 'a filesystem = "string \<rightharpoonup> 'a h5file"

definition h5_open :: "'a filesystem \<Rightarrow> string \<Rightarrow> error + 'a h5file" where
  "h5_open fs path = (case fs path of None \<Rightarrow> Inl (IOError path) | Some f \<Rightarrow> Inr f)"

definition h5_getitem :: "'a h5file \<Rightarrow> string \<Rightarrow> error + 'a ndarray" where
  "h5_getitem file v = (case file v of None \<Rightarrow> Inl (KeyError v) | Some d \<Rightarrow> Inr d)"

text \<open>\<^verbatim>\<open>dset.shape[1]\<close>: the shape tuple of a variable of rank below 2 has no entry 1.\<close>

fun h5_shape1 :: "'a ndarray \<Rightarrow> error + nat" where
  "h5_shape1 (Arr2 m) = Inr (ncols m)"
| "h5_shape1 _ = Inl IndexError"

text \<open>\<^verbatim>\<open>dset[:]\<close>: h5py refuses to slice a scalar dataset.\<close>

fun h5_read_all :: "'a ndarray \<Rightarrow> error + 'a ndarray" where
  "h5_read_all (Arr0 d x) = Inl ValueError"
| "h5_read_all a = Inr a"

text \<open>\<^verbatim>\<open>dset.value\<close>: the whole content, a scalar for a scalar dataset.\<close>

definition h5_value :: "'a ndarray \<Rightarrow> 'a ndarray" where
  "h5_value d = d"

subsection \<open>numpy\<close>

fun atleast_2d :: "'a ndarray \<Rightarrow> 'a mat" where
  "atleast_2d (Arr0 d x) = \<lparr>mdtype = d, ncols = 1, mrows = [[x]]\<rparr>"
| "atleast_2d (Arr1 d xs) = \<lparr>mdtype = d, ncols = length xs, mrows = [xs]\<rparr>"
| "atleast_2d (Arr2 m) = m"

definition transpose_mat :: "'a mat \<Rightarrow> 'a mat" where
  "transpose_mat m =
     \<lparr>mdtype = mdtype m, ncols = nrows m,
      mrows = map (\<lambda>j. map (\<lambda>r. r ! j) (mrows m)) [0..<ncols m]\<rparr>"

text \<open>\<^verbatim>\<open>a.T\<close> reverses the axes: nothing to do below rank 2.\<close>

fun ndarray_T :: "'a ndarray \<Rightarrow> 'a ndarray" where
  "ndarray_T (Arr2 m) = Arr2 (transpose_mat m)"
| "ndarray_T a = a"

text \<open>
  Broadcasting of a binary operation of a matrix with an array of rank at most 2: the
  lower rank gets leading axes of extent 1, and along each axis the extents must agree
  or one of them be 1, which is then repeated. The precision of the result is the wider
  one for an operand with axes and that of the matrix for a scalar operand. (numpy widens
  for a scalar only when its value is beyond the range of the precision of the matrix;
  a scalar statistic is taken to lie in that range, as the data do.)
\<close>

fun result_dtype :: "dtype \<Rightarrow> 'a ndarray \<Rightarrow> dtype" where
  "result_dtype d (Arr0 e x) = d"
| "result_dtype d (Arr1 e xs) = promote d e"
| "result_dtype d (Arr2 m) = promote d (mdtype m)"

definition broadcast_dim :: "nat \<Rightarrow> nat \<Rightarrow> nat option" where
  "broadcast_dim a b =
     (if a = b then Some a else if a = 1 then Some b else if b = 1 then Some a else None)"

definition stretch :: "nat \<Rightarrow> 'b list \<Rightarrow> 'b list" where
  "stretch n xs = (if length xs = n then xs else replicate n (hd xs))"

definition broadcast_op :: "('a \<Rightarrow> 'a \<Rightarrow> 'a) \<Rightarrow> 'a mat \<Rightarrow> 'a ndarray \<Rightarrow> error + 'a mat" where
  "broadcast_op f a b =
     (let b2 = atleast_2d b in
      case broadcast_dim (nrows a) (nrows b2) of
        None \<Rightarrow> Inl ValueError
      | Some r \<Rightarrow>
         (case broadcast_dim (ncols a) (ncols b2) of
            None \<Rightarrow> Inl ValueError
          | Some c \<Rightarrow>
              Inr \<lparr>mdtype = result_dtype (mdtype a) b, ncols = c,
                   mrows = map2 (\<lambda>ra rb. map2 f (stretch c ra) (stretch c rb))
                             (stretch r (mrows a)) (stretch r (mrows b2))\<rparr>))"

definition np_subtract :: "'a::minus mat \<Rightarrow> 'a ndarray \<Rightarrow> error + 'a mat" where
  "np_subtract = broadcast_op (\<lambda>x y. x - y)"

definition np_divide :: "'a::inverse mat \<Rightarrow> 'a ndarray \<Rightarrow> error + 'a mat" where
  "np_divide = broadcast_op (\<lambda>x y. x / y)"

text \<open>
  An array times a Python float \<open>c\<close>: the precision of the array, widened to the least
  precision \<open>cd\<close> whose range holds \<open>c\<close> (float16 holds \<^verbatim>\<open>1000.\<close> and not \<^verbatim>\<open>2.5e6\<close>,
  which float32 holds). The product of a numpy scalar and a Python float is in float64.
\<close>

fun np_scale :: "'a::times ndarray \<Rightarrow> 'a \<Rightarrow> dtype \<Rightarrow> 'a ndarray" where
  "np_scale (Arr0 d x) c cd = Arr0 Float64 (x * c)"
| "np_scale (Arr1 d xs) c cd = Arr1 (promote d cd) (map (\<lambda>x. x * c) xs)"
| "np_scale (Arr2 m) c cd =
     Arr2 (m\<lparr>mdtype := promote (mdtype m) cd, mrows := map (map (\<lambda>x. x * c)) (mrows m)\<rparr>)"

text \<open>\<^verbatim>\<open>np.asarray(a, dtype=d)\<close>: every value converted, the shape kept.\<close>

definition asarray_mat :: "(dtype \<Rightarrow> 'a \<Rightarrow> 'a) \<Rightarrow> dtype \<Rightarrow> 'a mat \<Rightarrow> 'a mat" where
  "asarray_mat cast d m = m\<lparr>mdtype := d, mrows := map (map (cast d)) (mrows m)\<rparr>"

fun asarray :: "(dtype \<Rightarrow> 'a \<Rightarrow> 'a) \<Rightarrow> dtype \<Rightarrow> 'a ndarray \<Rightarrow> 'a ndarray" where
  "asarray cast d (Arr0 d0 x) = Arr0 d (cast d x)"
| "asarray cast d (Arr1 d0 xs) = Arr1 d (map (cast d) xs)"
| "asarray cast d (Arr2 m) = Arr2 (asarray_mat cast d m)"

definition asarray3 :: "(dtype \<Rightarrow> 'a \<Rightarrow> 'a) \<Rightarrow> dtype \<Rightarrow> 'a arr3 \<Rightarrow> 'a arr3" where
  "asarray3 cast d c = c\<lparr>cdtype := d, cdata := map (map (map (cast d))) (cdata c)\<rparr>"

text \<open>
  What the conversion does to a rational value: it rounds to the nearest value with the
  significand of the precision, and of two nearest values to the one with the even
  significand. \<open>floor_log2\<close> is the exponent of a positive value. The range of the
  exponent (overflow, subnormal numbers) is not modelled.
\<close>

fun significand_bits :: "dtype \<Rightarrow> nat" where
  "significand_bits Float16 = 11"
| "significand_bits Float32 = 24"
| "significand_bits Float64 = 53"

definition round_half_even :: "rat \<Rightarrow> int" where
  "round_half_even q =
     (let f = \<lfloor>q\<rfloor>; r = q - of_int f
      in if r < 1 / 2 then f else if 1 / 2 < r then f + 1 else if even f then f else f + 1)"

definition floor_log2 :: "rat \<Rightarrow> int" where
  "floor_log2 x = (if 1 \<le> x then bitlen \<lfloor>x\<rfloor> - 1 else - bitlen (\<lceil>1 / x\<rceil> - 1))"

definition float_round :: "nat \<Rightarrow> rat \<Rightarrow> rat" where
  "float_round p x =
     (if x = 0 then 0
      else let ulp = 2 powi (floor_log2 \<bar>x\<bar> - int p + 1)
           in of_int (round_half_even (x / ulp)) * ulp)"

definition ieee_cast :: "dtype \<Rightarrow> rat \<Rightarrow> rat" where
  "ieee_cast d x = float_round (significand_bits d) x"

text \<open>The precision of an array assembled from several: the widest of theirs.\<close>

definition promote_all :: "dtype list \<Rightarrow> dtype" where
  "promote_all ds = foldr promote ds Float16"

text \<open>
  \<^verbatim>\<open>np.concatenate(ms, axis=1)\<close> on matrices: at least one array, all with the same number
  of rows; row \<open>i\<close> of the result is the rows \<open>i\<close> one after the other.
\<close>

definition np_concatenate1 :: "'a mat list \<Rightarrow> error + 'a mat" where
  "np_concatenate1 ms =
     (if ms = [] then Inl ValueError
      else if \<not> list_all (\<lambda>m. nrows m = nrows (hd ms)) ms then Inl ValueError
      else Inr \<lparr>mdtype = promote_all (map mdtype ms), ncols = sum_list (map ncols ms),
                mrows = map (\<lambda>i. concat (map (\<lambda>m. mrows m ! i) ms)) [0..<nrows (hd ms)]\<rparr>)"

text \<open>
  \<^verbatim>\<open>np.stack(ms, axis=-1)\<close> on matrices: at least one array, all of one shape; the new
  last axis runs over the arrays.
\<close>

definition np_stack_last :: "'a mat list \<Rightarrow> error + 'a arr3" where
  "np_stack_last ms =
     (if ms = [] then Inl ValueError
      else if \<not> list_all (\<lambda>m. nrows m = nrows (hd ms) \<and> ncols m = ncols (hd ms)) ms
        then Inl ValueError
      else Inr \<lparr>cdtype = promote_all (map mdtype ms), cshape = (ncols (hd ms), length ms),
                cdata = map (\<lambda>i. map (\<lambda>j. map (\<lambda>m. mrows m ! i ! j) ms) [0..<ncols (hd ms)])
                          [0..<nrows (hd ms)]\<rparr>)"

text \<open>
  \<^verbatim>\<open>np.concatenate([a, b], axis=0)\<close>: the ranks must agree and be at least 1, and two
  matrices must agree on axis 1.
\<close>

fun np_concatenate0 :: "'a ndarray \<Rightarrow> 'a ndarray \<Rightarrow> error + 'a ndarray" where
  "np_concatenate0 (Arr1 d xs) (Arr1 e ys) = Inr (Arr1 (promote d e) (xs @ ys))"
| "np_concatenate0 (Arr2 a) (Arr2 b) =
     (if ncols a = ncols b
      then Inr (Arr2 \<lparr>mdtype = promote (mdtype a) (mdtype b), ncols = ncols a,
                      mrows = mrows a @ mrows b\<rparr>)
      else Inl ValueError)"
| "np_concatenate0 _ _ = Inl ValueError"

section \<open>The dataset loader: class DataSet\<close>

text \<open>
  The features are one matrix \<open>[sample, flattened features]\<close>, or with \<^verbatim>\<open>convolution\<close>
  the Python list \<^verbatim>\<open>[f_2d, f_1d]\<close> of an array \<open>[sample, z, feature]\<close> and a matrix.
\<close>

datatype 'a features = Flat "'a mat" | Conv "'a arr3" "'a mat"

record 'a DataSet =
  ds_data_dir :: string
  ds_out_fn :: string
  ds_mean_fn :: string
  ds_std_fn :: string
  ds_convolution :: bool
  ds_feature_names :: "string list"
  ds_target_names :: "string list"
  ds_dtype :: dtype
  ds_n_samples :: nat
  ds_features :: "'a features"
  ds_targets :: "'a ndarray"

text \<open>The body of the loop over \<^verbatim>\<open>self.feature_names\<close> in \<^verbatim>\<open>DataSet.__get_features\<close>.\<close>

definition DataSet_feature ::
  "(dtype \<Rightarrow> 'a \<Rightarrow> 'a) \<Rightarrow> 'a::{minus,inverse} h5file \<Rightarrow> 'a h5file \<Rightarrow> 'a h5file \<Rightarrow> dtype \<Rightarrow> string
     \<Rightarrow> error + 'a mat" where
  "DataSet_feature cast out_file mean_file std_file dt v =
     ebind (h5_getitem out_file v) (\<lambda>dset.
     ebind (h5_read_all dset) (\<lambda>raw.
     ebind (h5_getitem mean_file v) (\<lambda>mean.
     ebind (np_subtract (transpose_mat (atleast_2d raw)) (h5_value mean)) (\<lambda>f.
     ebind (h5_getitem std_file v) (\<lambda>std.
     ebind (np_divide f (h5_value std)) (\<lambda>f.
     Inr (asarray_mat cast dt f)))))))"

fun DataSet_f_list ::
  "(dtype \<Rightarrow> 'a \<Rightarrow> 'a) \<Rightarrow> 'a::{minus,inverse} h5file \<Rightarrow> 'a h5file \<Rightarrow> 'a h5file \<Rightarrow> dtype
     \<Rightarrow> string list \<Rightarrow> error + 'a mat list" where
  "DataSet_f_list cast out_file mean_file std_file dt [] = Inr []"
| "DataSet_f_list cast out_file mean_file std_file dt (v # vs) =
     ebind (DataSet_feature cast out_file mean_file std_file dt v) (\<lambda>f.
     ebind (DataSet_f_list cast out_file mean_file std_file dt vs) (\<lambda>fs.
     Inr (f # fs)))"

text \<open>
  \<^verbatim>\<open>DataSet.__get_features\<close>, on the fields of \<^verbatim>\<open>self\<close> that it reads; it returns the
  sample count that it stores in \<^verbatim>\<open>self.n_samples\<close> together with the features.
\<close>

definition DataSet_get_features ::
  "(dtype \<Rightarrow> 'a \<Rightarrow> 'a) \<Rightarrow> 'a::{minus,inverse} filesystem \<Rightarrow> string \<Rightarrow> string \<Rightarrow> string
     \<Rightarrow> string list \<Rightarrow> bool \<Rightarrow> dtype \<Rightarrow> error + nat \<times> 'a features" where
  "DataSet_get_features cast fs out_fn mean_fn std_fn feature_names convolution dt =
     ebind (h5_open fs out_fn) (\<lambda>out_file.
     ebind (h5_open fs mean_fn) (\<lambda>mean_file.
     ebind (h5_open fs std_fn) (\<lambda>std_file.
     ebind (h5_getitem out_file ''TAP'') (\<lambda>tap.
     ebind (h5_shape1 tap) (\<lambda>n_samples.
     ebind (DataSet_f_list cast out_file mean_file std_file dt feature_names) (\<lambda>f_list.
     if convolution then
       ebind (np_stack_last (filter (\<lambda>f. ncols f > 1) f_list)) (\<lambda>f_2d.
       ebind (np_concatenate1 (filter (\<lambda>f. ncols f = 1) f_list)) (\<lambda>f_1d.
       Inr (n_samples, Conv f_2d f_1d)))
     else
       ebind (np_concatenate1 f_list) (\<lambda>f.
       Inr (n_samples, Flat f))))))))"

definition DataSet_get_targets ::
  "(dtype \<Rightarrow> 'a \<Rightarrow> 'a) \<Rightarrow> 'a::{times,numeral} filesystem \<Rightarrow> string \<Rightarrow> dtype \<Rightarrow> error + 'a ndarray" where
  "DataSet_get_targets cast fs out_fn dt =
     ebind (h5_open fs out_fn) (\<lambda>out_file.
     ebind (h5_getitem out_file ''SPDT'') (\<lambda>dset1.
     ebind (h5_read_all dset1) (\<lambda>spdt.
     ebind (h5_getitem out_file ''SPDQ'') (\<lambda>dset2.
     ebind (h5_read_all dset2) (\<lambda>spdq.
     ebind (np_concatenate0 (np_scale spdt 1000 Float16) (np_scale spdq 2500000 Float32))
       (\<lambda>targets.
     Inr (asarray cast dt (ndarray_T targets))))))))"

definition DataSet_init ::
  "(dtype \<Rightarrow> 'a \<Rightarrow> 'a) \<Rightarrow> 'a::{minus,inverse,times,numeral} filesystem \<Rightarrow> string \<Rightarrow> string \<Rightarrow> string
     \<Rightarrow> string \<Rightarrow> string list \<Rightarrow> string list \<Rightarrow> bool \<Rightarrow> dtype \<Rightarrow> error + 'a DataSet" where
  "DataSet_init cast fs data_dir out_fn mean_fn std_fn feature_names target_names convolution dt =
     ebind (DataSet_get_features cast fs (data_dir @ out_fn) (data_dir @ mean_fn)
              (data_dir @ std_fn) feature_names convolution dt) (\<lambda>(n_samples, features).
     ebind (DataSet_get_targets cast fs (data_dir @ out_fn) dt) (\<lambda>targets.
     Inr \<lparr>ds_data_dir = data_dir, ds_out_fn = data_dir @ out_fn,
          ds_mean_fn = data_dir @ mean_fn, ds_std_fn = data_dir @ std_fn,
          ds_convolution = convolution, ds_feature_names = feature_names,
          ds_target_names = target_names, ds_dtype = dt, ds_n_samples = n_samples,
          ds_features = features, ds_targets = targets\<rparr>))"

section \<open>The batch generator: class DataGenerator\<close>

record 'a DataGenerator =
  dg_data_dir :: string
  dg_batch_size :: nat
  dg_shuffle_mode :: string
  dg_feature_names :: "string list"
  dg_target_names :: "string list"
  dg_convolution :: bool
  dg_out_fn :: string
  dg_mean_fn :: string
  dg_std_fn :: string
  dg_n_samples :: nat
  dg_features :: "'a features"
  dg_targets :: "'a ndarray"
  dg_n_batches :: nat
  dg_idxs :: "nat list"

text \<open>The body of the loop in \<^verbatim>\<open>DataGenerator.__get_features\<close>: no conversion at its end.\<close>

definition DataGenerator_feature ::
  "'a::{minus,inverse} h5file \<Rightarrow> 'a h5file \<Rightarrow> 'a h5file \<Rightarrow> string \<Rightarrow> error + 'a mat" where
  "DataGenerator_feature out_file mean_file std_file v =
     ebind (h5_getitem out_file v) (\<lambda>dset.
     ebind (h5_read_all dset) (\<lambda>raw.
     ebind (h5_getitem mean_file v) (\<lambda>mean.
     ebind (np_subtract (transpose_mat (atleast_2d raw)) (h5_value mean)) (\<lambda>f.
     ebind (h5_getitem std_file v) (\<lambda>std.
     np_divide f (h5_value std))))))"

fun DataGenerator_f_list ::
  "'a::{minus,inverse} h5file \<Rightarrow> 'a h5file \<Rightarrow> 'a h5file \<Rightarrow> string list \<Rightarrow> error + 'a mat list" where
  "DataGenerator_f_list out_file mean_file std_file [] = Inr []"
| "DataGenerator_f_list out_file mean_file std_file (v # vs) =
     ebind (DataGenerator_feature out_file mean_file std_file v) (\<lambda>f.
     ebind (DataGenerator_f_list out_file mean_file std_file vs) (\<lambda>fs.
     Inr (f # fs)))"

definition DataGenerator_get_features ::
  "'a::{minus,inverse} filesystem \<Rightarrow> string \<Rightarrow> string \<Rightarrow> string \<Rightarrow> string list \<Rightarrow> bool
     \<Rightarrow> error + nat \<times> 'a features" where
  "DataGenerator_get_features fs out_fn mean_fn std_fn feature_names convolution =
     ebind (h5_open fs out_fn) (\<lambda>out_file.
     ebind (h5_open fs mean_fn) (\<lambda>mean_file.
     ebind (h5_open fs std_fn) (\<lambda>std_file.
     ebind (h5_getitem out_file ''TAP'') (\<lambda>tap.
     ebind (h5_shape1 tap) (\<lambda>n_samples.
     ebind (DataGenerator_f_list out_file mean_file std_file feature_names) (\<lambda>f_list.
     if convolution then
       ebind (np_stack_last (filter (\<lambda>f. ncols f > 1) f_list)) (\<lambda>f_2d.
       ebind (np_concatenate1 (filter (\<lambda>f. ncols f = 1) f_list)) (\<lambda>f_1d.
       Inr (n_samples, Conv f_2d f_1d)))
     else
       ebind (np_concatenate1 f_list) (\<lambda>f.
       Inr (n_samples, Flat f))))))))"

definition DataGenerator_get_targets ::
  "'a::{times,numeral} filesystem \<Rightarrow> string \<Rightarrow> error + 'a ndarray" where
  "DataGenerator_get_targets fs out_fn =
     ebind (h5_open fs out_fn) (\<lambda>out_file.
     ebind (h5_getitem out_file ''SPDT'') (\<lambda>dset1.
     ebind (h5_read_all dset1) (\<lambda>spdt.
     ebind (h5_getitem out_file ''SPDQ'') (\<lambda>dset2.
     ebind (h5_read_all dset2) (\<lambda>spdq.
     ebind (np_concatenate0 (np_scale spdt 1000 Float16) (np_scale spdq 2500000 Float32))
       (\<lambda>targets.
     Inr (ndarray_T targets)))))))"

text \<open>
  \<^verbatim>\<open>np.arange(0, n, step)\<close> for a positive step and \<^verbatim>\<open>np.arange(n)\<close>. The batch size
  ranges over the natural numbers; \<^verbatim>\<open>int(n_samples / batch_size)\<close> divides by it, which
  raises for 0 and is the floor of the quotient otherwise (the quotient is a float, and
  exact enough for that at every number of samples that an array in memory can have).
\<close>

definition arange_step :: "nat \<Rightarrow> nat \<Rightarrow> nat list" where
  "arange_step n step = map (\<lambda>j. j * step) [0..<(n + step - 1) div step]"

definition arange :: "nat \<Rightarrow> nat list" where
  "arange n = [0..<n]"

definition DataGenerator_init ::
  "'a::{minus,inverse,times,numeral} filesystem \<Rightarrow> string \<Rightarrow> string \<Rightarrow> nat \<Rightarrow> string list
     \<Rightarrow> string list \<Rightarrow> string \<Rightarrow> bool \<Rightarrow> error + 'a DataGenerator" where
  "DataGenerator_init fs data_dir out_name batch_size feature_names target_names shuffle_mode
       convolution =
     (if target_names \<noteq> [''SPDT'', ''SPDQ'']
      then Inl (AssertionError ''No other targets implemented.'')
      else
        ebind (DataGenerator_get_features fs (data_dir @ out_name)
                 (data_dir @ ''SPCAM_mean.nc'') (data_dir @ ''SPCAM_std.nc'')
                 feature_names convolution) (\<lambda>(n_samples, features).
        ebind (DataGenerator_get_targets fs (data_dir @ out_name)) (\<lambda>targets.
        if batch_size = 0 then Inl ZeroDivisionError
        else
          Inr \<lparr>dg_data_dir = data_dir, dg_batch_size = batch_size,
               dg_shuffle_mode = shuffle_mode, dg_feature_names = feature_names,
               dg_target_names = target_names, dg_convolution = convolution,
               dg_out_fn = data_dir @ out_name,
               dg_mean_fn = data_dir @ ''SPCAM_mean.nc'',
               dg_std_fn = data_dir @ ''SPCAM_std.nc'',
               dg_n_samples = n_samples, dg_features = features, dg_targets = targets,
               dg_n_batches = n_samples div batch_size,
               dg_idxs = (if shuffle_mode = ''batches''
                          then arange_step n_samples batch_size
                          else arange n_samples)\<rparr>)))"

subsection \<open>generate\<close>

text \<open>
  Reading list element \<open>k\<close> raises when \<open>k\<close> is out of range; a slice \<^verbatim>\<open>xs[a:b]\<close> is cut
  at the end of the list; indexing with a list of indices gathers the entries in the
  order of the indices, and raises when one of them is out of range.
\<close>

definition index_list :: "'b list \<Rightarrow> nat \<Rightarrow> error + 'b" where
  "index_list xs k = (if k < length xs then Inr (xs ! k) else Inl IndexError)"

definition py_slice :: "'b list \<Rightarrow> nat \<Rightarrow> nat \<Rightarrow> 'b list" where
  "py_slice xs a b = take (b - a) (drop a xs)"

fun emap :: "('b \<Rightarrow> error + 'c) \<Rightarrow> 'b list \<Rightarrow> error + 'c list" where
  "emap f [] = Inr []"
| "emap f (x # xs) = ebind (f x) (\<lambda>y. ebind (emap f xs) (\<lambda>ys. Inr (y # ys)))"

definition gather :: "'b list \<Rightarrow> nat list \<Rightarrow> error + 'b list" where
  "gather xs idx = emap (index_list xs) idx"

text \<open>Slicing and gathering along axis 0 of the arrays that the generator holds.\<close>

fun slice_ndarray :: "'a ndarray \<Rightarrow> nat \<Rightarrow> nat \<Rightarrow> error + 'a ndarray" where
  "slice_ndarray (Arr0 d x) a b = Inl IndexError"
| "slice_ndarray (Arr1 d xs) a b = Inr (Arr1 d (py_slice xs a b))"
| "slice_ndarray (Arr2 m) a b = Inr (Arr2 (m\<lparr>mrows := py_slice (mrows m) a b\<rparr>))"

fun slice_features :: "'a features \<Rightarrow> nat \<Rightarrow> nat \<Rightarrow> 'a features" where
  "slice_features (Flat m) a b = Flat (m\<lparr>mrows := py_slice (mrows m) a b\<rparr>)"
| "slice_features (Conv c m) a b =
     Conv (c\<lparr>cdata := py_slice (cdata c) a b\<rparr>) (m\<lparr>mrows := py_slice (mrows m) a b\<rparr>)"

fun gather_ndarray :: "'a ndarray \<Rightarrow> nat list \<Rightarrow> error + 'a ndarray" where
  "gather_ndarray (Arr0 d x) idx = Inl IndexError"
| "gather_ndarray (Arr1 d xs) idx = ebind (gather xs idx) (\<lambda>ys. Inr (Arr1 d ys))"
| "gather_ndarray (Arr2 m) idx = ebind (gather (mrows m) idx) (\<lambda>rs. Inr (Arr2 (m\<lparr>mrows := rs\<rparr>)))"

fun gather_features :: "'a features \<Rightarrow> nat list \<Rightarrow> error + 'a features" where
  "gather_features (Flat m) idx = ebind (gather (mrows m) idx) (\<lambda>rs. Inr (Flat (m\<lparr>mrows := rs\<rparr>)))"
| "gather_features (Conv c m) idx =
     ebind (gather (cdata c) idx) (\<lambda>cs.
     ebind (gather (mrows m) idx) (\<lambda>rs.
     Inr (Conv (c\<lparr>cdata := cs\<rparr>) (m\<lparr>mrows := rs\<rparr>))))"

text \<open>
  The indices that the second branch of the loop body computes:
  \<^verbatim>\<open>[self.idxs[k] for k in self.idxs[i * self.batch_size:(i + 1) * self.batch_size]]\<close>.
\<close>

definition batch_idx_samples :: "'a DataGenerator \<Rightarrow> nat \<Rightarrow> error + nat list" where
  "batch_idx_samples self i =
     emap (index_list (dg_idxs self))
       (py_slice (dg_idxs self) (i * dg_batch_size self) ((i + 1) * dg_batch_size self))"

text \<open>
  The body of the \<^verbatim>\<open>for\<close> loop of \<^verbatim>\<open>generate\<close> at batch position \<open>i\<close>: the pair
  \<open>(x, y)\<close> that it yields. The test of \<^verbatim>\<open>self.convolution\<close> is the case distinction on
  \<open>dg_features\<close>, which \<^verbatim>\<open>__init__\<close> built under that flag.
\<close>

definition generate_batch ::
  "'a DataGenerator \<Rightarrow> nat list \<Rightarrow> nat \<Rightarrow> error + 'a features \<times> 'a ndarray" where
  "generate_batch self gen_idxs i =
     (if dg_shuffle_mode self = ''batches'' then
        ebind (index_list gen_idxs i) (\<lambda>batch_idx.
        ebind (slice_ndarray (dg_targets self) batch_idx (batch_idx + dg_batch_size self)) (\<lambda>y.
        Inr (slice_features (dg_features self) batch_idx (batch_idx + dg_batch_size self), y)))
      else
        ebind (batch_idx_samples self i) (\<lambda>batch_idx.
        ebind (gather_features (dg_features self) batch_idx) (\<lambda>x.
        ebind (gather_ndarray (dg_targets self) batch_idx) (\<lambda>y.
        Inr (x, y)))))"

text \<open>
  A running generator holds its copy of the indices and the counter \<open>i\<close> of the \<^verbatim>\<open>for\<close>
  loop. \<^verbatim>\<open>generate(shuffle)\<close> copies \<^verbatim>\<open>self.idxs\<close> and shuffles the copy in place when
  asked; \<open>rnd\<close> is what \<^verbatim>\<open>np.random.shuffle\<close> makes of a list on this call. (Python
  runs these two statements on the first \<^verbatim>\<open>next()\<close>; nothing changes \<^verbatim>\<open>self.idxs\<close> in
  between.)
\<close>

record gen_state =
  gen_idxs :: "nat list"
  gen_i :: nat

definition generate :: "(nat list \<Rightarrow> nat list) \<Rightarrow> 'a DataGenerator \<Rightarrow> bool \<Rightarrow> gen_state" where
  "generate rnd self shuffle =
     \<lparr>gen_idxs = (if shuffle then rnd (dg_idxs self) else dg_idxs self), gen_i = 0\<rparr>"

text \<open>
  \<^verbatim>\<open>while True: for i in range(self.n_batches): ...\<close> at the head of the \<^verbatim>\<open>for\<close>
  loop with counter \<open>i\<close>: the body runs with \<open>i\<close> when \<open>i\<close> is in the range, and otherwise
  the \<^verbatim>\<open>for\<close> loop is over and \<^verbatim>\<open>while True\<close> starts it again at 0. With no batch at
  all this never reaches the body: the value is \<open>None\<close>.
\<close>

partial_function (option) loop_head :: "nat \<Rightarrow> nat \<Rightarrow> nat option" where
  "loop_head n_batches i = (if i < n_batches then Some i else loop_head n_batches 0)"

text \<open>
  One \<^verbatim>\<open>next()\<close> on the generator: \<open>None\<close> when it never returns, the error that the body
  raises, or the pair yielded and the state in which the generator is suspended.
\<close>

definition gen_next ::
  "'a DataGenerator \<Rightarrow> gen_state \<Rightarrow> (error + ('a features \<times> 'a ndarray) \<times> gen_state) option" where
  "gen_next self st =
     (case loop_head (dg_n_batches self) (gen_i st) of
        None \<Rightarrow> None
      | Some i \<Rightarrow>
          Some (ebind (generate_batch self (gen_idxs st) i) (\<lambda>xy.
                Inr (xy, st\<lparr>gen_i := i + 1\<rparr>))))"

text \<open>The first \<open>k\<close> pairs that the generator yields from a state.\<close>

fun gen_take ::
  "'a DataGenerator \<Rightarrow> gen_state \<Rightarrow> nat \<Rightarrow> (error + ('a features \<times> 'a ndarray) list) option" where
  "gen_take self st 0 = Some (Inr [])"
| "gen_take self st (Suc k) =
     (case gen_next self st of
        None \<Rightarrow> None
      | Some (Inl e) \<Rightarrow> Some (Inl e)
      | Some (Inr (xy, st')) \<Rightarrow>
          (case gen_take self st' k of
             None \<Rightarrow> None
           | Some (Inl e) \<Rightarrow> Some (Inl e)
           | Some (Inr xys) \<Rightarrow> Some (Inr (xy # xys))))"

section \<open>Notions for stating the properties\<close>

text \<open>
  Whether a statistic is a scalar or holds one value for each of \<open>n\<close> levels, and its
  value at a level; the column \<^verbatim>\<open>a[:, j]\<close> of an array, which numpy refuses below rank 2
  or beyond the last column.
\<close>

fun per_level :: "nat \<Rightarrow> 'a ndarray \<Rightarrow> bool" where
  "per_level n (Arr0 d x) = True"
| "per_level n (Arr1 d xs) = (length xs = n)"
| "per_level n (Arr2 m) = False"

fun level_value :: "'a ndarray \<Rightarrow> nat \<Rightarrow> 'a" where
  "level_value (Arr0 d x) l = x"
| "level_value (Arr1 d xs) l = xs ! l"
| "level_value (Arr2 m) l = mrows m ! 0 ! l"

fun target_column :: "'a ndarray \<Rightarrow> nat \<Rightarrow> error + 'a ndarray" where
  "target_column (Arr2 m) j =
     (if j < ncols m then Inr (Arr1 (mdtype m) (map (\<lambda>r. r ! j) (mrows m))) else Inl IndexError)"
| "target_column a j = Inl IndexError"

text \<open>
  The normalized variable as the specification describes it: sample \<open>s\<close>, level \<open>l\<close> of the
  result is the raw value at level \<open>l\<close>, sample \<open>s\<close>, minus the mean of the level, divided
  by the standard deviation of the level.
\<close>

definition normalized :: "'a::{minus,inverse} mat \<Rightarrow> 'a ndarray \<Rightarrow> 'a ndarray \<Rightarrow> 'a mat" where
  "normalized raw mean std =
     \<lparr>mdtype = result_dtype (result_dtype (mdtype raw) mean) std,
      ncols = nrows raw,
      mrows = map (\<lambda>s. map (\<lambda>l. (mrows raw ! l ! s - level_value mean l) / level_value std l)
                          [0..<nrows raw]) [0..<ncols raw]\<rparr>"

text \<open>
  The features and the whole dataset that hold the arrays of a generator converted to a
  precision.
\<close>

fun asarray_features :: "(dtype \<Rightarrow> 'a \<Rightarrow> 'a) \<Rightarrow> dtype \<Rightarrow> 'a features \<Rightarrow> 'a features" where
  "asarray_features cast d (Flat m) = Flat (asarray_mat cast d m)"
| "asarray_features cast d (Conv c m) = Conv (asarray3 cast d c) (asarray_mat cast d m)"

definition dataset_of_generator ::
  "(dtype \<Rightarrow> 'a \<Rightarrow> 'a) \<Rightarrow> dtype \<Rightarrow> 'a DataGenerator \<Rightarrow> 'a DataSet" where
  "dataset_of_generator cast dt g =
     \<lparr>ds_data_dir = dg_data_dir g, ds_out_fn = dg_out_fn g, ds_mean_fn = dg_mean_fn g,
      ds_std_fn = dg_std_fn g, ds_convolution = dg_convolution g,
      ds_feature_names = dg_feature_names g, ds_target_names = dg_target_names g,
      ds_dtype = dt, ds_n_samples = dg_n_samples g,
      ds_features = asarray_features cast dt (dg_features g),
      ds_targets = asarray cast dt (dg_targets g)\<rparr>"

text \<open>The tests that \<^verbatim>\<open>np.concatenate\<close> and \<^verbatim>\<open>np.stack\<close> make of their arguments.\<close>

definition same_nrows :: "'a mat list \<Rightarrow> bool" where
  "same_nrows ms = list_all (\<lambda>m. nrows m = nrows (hd ms)) ms"

definition same_shape :: "'a mat list \<Rightarrow> bool" where
  "same_shape ms = list_all (\<lambda>m. nrows m = nrows (hd ms) \<and> ncols m = ncols (hd ms)) ms"

text \<open>
  The pair that the loop body of \<^verbatim>\<open>generate\<close> gathers at a list of sample indices in a
  mode other than \<^verbatim>\<open>batches\<close>; whether the features and the targets hold at least \<open>n\<close>
  rows along axis 0.
\<close>

definition gather_batch :: "'a DataGenerator \<Rightarrow> nat list \<Rightarrow> error + 'a features \<times> 'a ndarray" where
  "gather_batch g batch_idx =
     ebind (gather_features (dg_features g) batch_idx) (\<lambda>x.
     ebind (gather_ndarray (dg_targets g) batch_idx) (\<lambda>y.
     Inr (x, y)))"

fun features_have_rows :: "'a features \<Rightarrow> nat \<Rightarrow> bool" where
  "features_have_rows (Flat m) n = (n \<le> nrows m)"
| "features_have_rows (Conv c m) n = (n \<le> length (cdata c) \<and> n \<le> nrows m)"

fun ndarray_has_rows :: "'a ndarray \<Rightarrow> nat \<Rightarrow> bool" where
  "ndarray_has_rows (Arr0 d x) n = False"
| "ndarray_has_rows (Arr1 d xs) n = (n \<le> length xs)"
| "ndarray_has_rows (Arr2 m) n = (n \<le> nrows m)"

section \<open>Concrete inputs\<close>

text \<open>
  A small data directory: an output file with a two-level variable \<^verbatim>\<open>TAP\<close>, a
  one-dimensional variable \<^verbatim>\<open>PS\<close> and the two targets on two levels, for five samples,
  and the two statistics files. Every number in it, and every number that the loaders
  compute from it, is one that float32 and float64 hold exactly, so that a conversion
  between these two precisions leaves the values as they are: \<open>exact_cast\<close>.
\<close>

definition exact_cast :: "dtype \<Rightarrow> rat \<Rightarrow> rat" where
  "exact_cast d x = x"

definition demo_out :: "rat h5file" where
  "demo_out = map_of
     [(''TAP'', Arr2 \<lparr>mdtype = Float64, ncols = 5, mrows = [[1, 2, 3, 4, 5], [6, 7, 8, 9, 10]]\<rparr>),
      (''PS'', Arr1 Float64 [10, 20, 30, 40, 50]),
      (''SPDT'', Arr2 \<lparr>mdtype = Float64, ncols = 5, mrows = [[1, 2, 3, 4, 5], [6, 7, 8, 9, 10]]\<rparr>),
      (''SPDQ'', Arr2 \<lparr>mdtype = Float64, ncols = 5,
                       mrows = [[11, 12, 13, 14, 15], [16, 17, 18, 19, 20]]\<rparr>)]"

definition demo_mean :: "rat h5file" where
  "demo_mean = map_of [(''TAP'', Arr1 Float64 [3, 8]), (''PS'', Arr0 Float64 30)]"

definition demo_std :: "rat h5file" where
  "demo_std = map_of [(''TAP'', Arr1 Float64 [1, 2]), (''PS'', Arr0 Float64 10)]"

definition demo_fs :: "rat filesystem" where
  "demo_fs = map_of
     [(''data/out.nc'', demo_out), (''data/SPCAM_mean.nc'', demo_mean),
      (''data/SPCAM_std.nc'', demo_std)]"

text \<open>The same directory with \<^verbatim>\<open>TAP\<close> removed from the output file.\<close>

definition demo_out_no_TAP :: "rat h5file" where
  "demo_out_no_TAP = demo_out(''TAP'' := None)"

definition demo_fs_no_TAP :: "rat filesystem" where
  "demo_fs_no_TAP = demo_fs(''data/out.nc'' \<mapsto> demo_out_no_TAP)"

text \<open>
  What the two constructors build from the directory, for the features \<^verbatim>\<open>TAP\<close> and
  \<^verbatim>\<open>PS\<close> without convolution: the generator with batch size 2 in mode \<^verbatim>\<open>batches\<close>, the
  dataset with precision float32.
\<close>

definition demo_targets :: "rat ndarray" where
  "demo_targets = Arr2 \<lparr>mdtype = Float64, ncols = 4,
      mrows = [[1000, 6000, 27500000, 40000000],
               [2000, 7000, 30000000, 42500000],
               [3000, 8000, 32500000, 45000000],
               [4000, 9000, 35000000, 47500000],
               [5000, 10000, 37500000, 50000000]]\<rparr>"

definition demo_generator :: "rat DataGenerator" where
  "demo_generator =
     \<lparr>dg_data_dir = ''data/'', dg_batch_size = 2, dg_shuffle_mode = ''batches'',
      dg_feature_names = [''TAP'', ''PS''], dg_target_names = [''SPDT'', ''SPDQ''],
      dg_convolution = False, dg_out_fn = ''data/out.nc'',
      dg_mean_fn = ''data/SPCAM_mean.nc'', dg_std_fn = ''data/SPCAM_std.nc'',
      dg_n_samples = 5,
      dg_features = Flat \<lparr>mdtype = Float64, ncols = 3,
         mrows = [[- 2, - 1, - 2], [- 1, - (1 / 2), - 1], [0, 0, 0], [1, 1 / 2, 1], [2, 1, 2]]\<rparr>,
      dg_targets = demo_targets, dg_n_batches = 2, dg_idxs = [0, 2, 4]\<rparr>"

definition demo_dataset :: "rat DataSet" where
  "demo_dataset =
     \<lparr>ds_data_dir = ''data/'', ds_out_fn = ''data/out.nc'',
      ds_mean_fn = ''data/SPCAM_mean.nc'', ds_std_fn = ''data/SPCAM_std.nc'',
      ds_convolution = False, ds_feature_names = [''TAP'', ''PS''],
      ds_target_names = [''SPDT'', ''SPDQ''], ds_dtype = Float32, ds_n_samples = 5,
      ds_features = Flat \<lparr>mdtype = Float32, ncols = 3,
         mrows = [[- 2, - 1, - 2], [- 1, - (1 / 2), - 1], [0, 0, 0], [1, 1 / 2, 1], [2, 1, 2]]\<rparr>,
      ds_targets = Arr2 \<lparr>mdtype = Float32, ncols = 4,
         mrows = [[1000, 6000, 27500000, 40000000],
                  [2000, 7000, 30000000, 42500000],
                  [3000, 8000, 32500000, 45000000],
                  [4000, 9000, 35000000, 47500000],
                  [5000, 10000, 37500000, 50000000]]\<rparr>\<rparr>"

text \<open>
  The generator of the same data in a mode other than \<^verbatim>\<open>batches\<close>, and the two batches
  that the generator in mode \<^verbatim>\<open>batches\<close> yields in one pass when the shuffle reverses
  its three batch offsets.
\<close>

definition demo_generator_samples :: "rat DataGenerator" where
  "demo_generator_samples =
     demo_generator\<lparr>dg_shuffle_mode := ''samples'', dg_idxs := [0, 1, 2, 3, 4]\<rparr>"

definition demo_pass :: "(rat features \<times> rat ndarray) list" where
  "demo_pass =
     [(Flat \<lparr>mdtype = Float64, ncols = 3, mrows = [[2, 1, 2]]\<rparr>,
       Arr2 \<lparr>mdtype = Float64, ncols = 4, mrows = [[5000, 10000, 37500000, 50000000]]\<rparr>),
      (Flat \<lparr>mdtype = Float64, ncols = 3, mrows = [[0, 0, 0], [1, 1 / 2, 1]]\<rparr>,
       Arr2 \<lparr>mdtype = Float64, ncols = 4,
             mrows = [[3000, 8000, 32500000, 45000000], [4000, 9000, 35000000, 47500000]]\<rparr>)]"

text \<open>
  The two batches that the generator in the other mode yields in one pass: the samples
  0, 1 and the samples 2, 3.
\<close>

definition demo_pass_samples :: "(rat features \<times> rat ndarray) list" where
  "demo_pass_samples =
     [(Flat \<lparr>mdtype = Float64, ncols = 3, mrows = [[- 2, - 1, - 2], [- 1, - (1 / 2), - 1]]\<rparr>,
       Arr2 \<lparr>mdtype = Float64, ncols = 4,
             mrows = [[1000, 6000, 27500000, 40000000], [2000, 7000, 30000000, 42500000]]\<rparr>),
      (Flat \<lparr>mdtype = Float64, ncols = 3, mrows = [[0, 0, 0], [1, 1 / 2, 1]]\<rparr>,
       Arr2 \<lparr>mdtype = Float64, ncols = 4,
             mrows = [[3000, 8000, 32500000, 45000000], [4000, 9000, 35000000, 47500000]]\<rparr>)]"

text \<open>
  A data directory stored in float64 whose variable \<^verbatim>\<open>TAP\<close> holds, on its first level,
  two values that float32 has not: 16777217 and 16777219 lie between the neighbours
  16777216, 16777218 and 16777220 of float32. The statistics leave them as they are.
\<close>

definition round_out :: "rat h5file" where
  "round_out =
     [''TAP'' \<mapsto> Arr2 \<lparr>mdtype = Float64, ncols = 2, mrows = [[16777217, 16777219], [1, 2]]\<rparr>,
      ''SPDT'' \<mapsto> Arr2 \<lparr>mdtype = Float64, ncols = 2, mrows = [[1, 2]]\<rparr>,
      ''SPDQ'' \<mapsto> Arr2 \<lparr>mdtype = Float64, ncols = 2, mrows = [[1, 2]]\<rparr>]"

definition round_mean :: "rat h5file" where
  "round_mean = [''TAP'' \<mapsto> Arr1 Float64 [0, 1]]"

definition round_std :: "rat h5file" where
  "round_std = [''TAP'' \<mapsto> Arr1 Float64 [1, 2]]"

definition round_fs :: "rat filesystem" where
  "round_fs = [''data/out.nc'' \<mapsto> round_out, ''data/SPCAM_mean.nc'' \<mapsto> round_mean,
               ''data/SPCAM_std.nc'' \<mapsto> round_std]"

section \<open>Properties\<close>

subsection \<open>Basic facts\<close>

lemma ebind_Inl [simp]: "ebind (Inl e) f = Inl e"
  by (simp add: ebind_def)

lemma ebind_Inr [simp]: "ebind (Inr x) f = f x"
  by (simp add: ebind_def)

lemma isl_ebind: "isl m \<Longrightarrow> isl (ebind m f)"
  by (cases m) simp_all

lemmas demo_defs = demo_fs_def demo_out_def demo_mean_def demo_std_def exact_cast_def
  demo_fs_no_TAP_def demo_out_no_TAP_def

lemmas numpy_defs = h5_open_def h5_getitem_def h5_value_def np_subtract_def np_divide_def
  broadcast_op_def broadcast_dim_def stretch_def transpose_mat_def nrows_def asarray_mat_def
  asarray3_def promote_all_def promote_def np_concatenate1_def np_stack_last_def

lemmas loader_defs = DataSet_init_def DataSet_get_features_def DataSet_get_targets_def
  DataSet_feature_def DataGenerator_init_def DataGenerator_get_features_def
  DataGenerator_get_targets_def DataGenerator_feature_def arange_def arange_step_def

lemmas round_defs = round_fs_def round_out_def round_mean_def round_std_def

lemma upt_5: "[0..<5] = [0, 1, 2, 3, 4]"
  by (simp add: upt_rec)

subsection \<open>The target names\<close>

text \<open>
  Claim C1: a constructor call with a target-name pair other than
  \<^verbatim>\<open>['SPDT', 'SPDQ']\<close> fails with a configuration error, for \<^verbatim>\<open>DataSet\<close> and for
  \<^verbatim>\<open>DataGenerator\<close>. The generator asserts it. \<^verbatim>\<open>DataSet.__init__\<close> has no such check:
  on the names \<^verbatim>\<open>['FOO', 'BAR']\<close> it returns an object, whose targets are those of
  \<^verbatim>\<open>SPDT\<close> and \<^verbatim>\<open>SPDQ\<close> all the same.
\<close>

theorem DataSet_accepts_other_targets:
  "DataSet_init exact_cast demo_fs ''data/'' ''out.nc'' ''SPCAM_mean.nc'' ''SPCAM_std.nc''
      [''TAP'', ''PS''] [''FOO'', ''BAR''] False Float32 =
   Inr \<lparr>ds_data_dir = ''data/'', ds_out_fn = ''data/out.nc'',
        ds_mean_fn = ''data/SPCAM_mean.nc'',
        ds_std_fn = ''data/SPCAM_std.nc'', ds_convolution = False,
        ds_feature_names = [''TAP'', ''PS''],
        ds_target_names = [''FOO'', ''BAR''], ds_dtype = Float32,
        ds_n_samples = 5,
        ds_features =
          Flat
           \<lparr>mdtype = Float32, ncols = 3,
              mrows =
                [[- 2, - 1, - 2], [- 1, - (1 / 2), - 1], [0, 0, 0],
                 [1, 1 / 2, 1], [2, 1, 2]]\<rparr>,
        ds_targets =
          Arr2
           \<lparr>mdtype = Float32, ncols = 4,
              mrows =
                [[1000, 6000, 27500000, 40000000],
                 [2000, 7000, 30000000, 42500000],
                 [3000, 8000, 32500000, 45000000],
                 [4000, 9000, 35000000, 47500000],
                 [5000, 10000, 37500000, 50000000]]\<rparr>\<rparr>
   \<and> DataGenerator_init demo_fs ''data/'' ''out.nc'' 2 [''TAP'', ''PS''] [''FOO'', ''BAR'']
       ''batches'' False = Inl (AssertionError ''No other targets implemented.'')"
  by (simp add: loader_defs numpy_defs demo_defs upt_5)

subsection \<open>The sample count\<close>

lemma DataSet_get_features_no_TAP:
  assumes "fs out_fn = Some out_file" and "out_file ''TAP'' = None"
  shows "isl (DataSet_get_features cast fs out_fn mean_fn std_fn names conv dt)"
    and "fs mean_fn \<noteq> None \<Longrightarrow> fs std_fn \<noteq> None \<Longrightarrow>
         DataSet_get_features cast fs out_fn mean_fn std_fn names conv dt = Inl (KeyError ''TAP'')"
  using assms
  by (auto simp: DataSet_get_features_def h5_open_def h5_getitem_def split: option.splits)

lemma DataGenerator_get_features_no_TAP:
  assumes "fs out_fn = Some out_file" and "out_file ''TAP'' = None"
  shows "isl (DataGenerator_get_features fs out_fn mean_fn std_fn names conv)"
    and "fs mean_fn \<noteq> None \<Longrightarrow> fs std_fn \<noteq> None \<Longrightarrow>
         DataGenerator_get_features fs out_fn mean_fn std_fn names conv = Inl (KeyError ''TAP'')"
  using assms
  by (auto simp: DataGenerator_get_features_def h5_open_def h5_getitem_def split: option.splits)

text \<open>
  Claim C10: both constructors read the sample count from the shape of the variable
  \<^verbatim>\<open>TAP\<close> of the output file, whatever the requested features are. When the output file
  opens and has no \<^verbatim>\<open>TAP\<close>, neither construction succeeds; once the two statistics files
  open too (and, for the generator, the target names pass the assertion, which comes
  first), the error is the failed lookup of \<^verbatim>\<open>TAP\<close>.
\<close>

theorem TAP_is_required:
  assumes "fs (data_dir @ out_fn) = Some out_file" and "out_file ''TAP'' = None"
  shows "isl (DataSet_init cast fs data_dir out_fn mean_fn std_fn feature_names target_names
                convolution dt)
       \<and> isl (DataGenerator_init fs data_dir out_fn batch_size feature_names target_names
                shuffle_mode convolution)
       \<and> (fs (data_dir @ mean_fn) \<noteq> None \<and> fs (data_dir @ std_fn) \<noteq> None \<longrightarrow>
            DataSet_init cast fs data_dir out_fn mean_fn std_fn feature_names target_names
              convolution dt = Inl (KeyError ''TAP''))
       \<and> (target_names = [''SPDT'', ''SPDQ''] \<and> fs (data_dir @ ''SPCAM_mean.nc'') \<noteq> None
            \<and> fs (data_dir @ ''SPCAM_std.nc'') \<noteq> None \<longrightarrow>
            DataGenerator_init fs data_dir out_fn batch_size feature_names target_names
              shuffle_mode convolution = Inl (KeyError ''TAP''))"
proof -
  note ds = DataSet_get_features_no_TAP
    [where fs = fs and out_fn = "data_dir @ out_fn" and out_file = out_file, OF assms]
  note dg = DataGenerator_get_features_no_TAP
    [where fs = fs and out_fn = "data_dir @ out_fn" and out_file = out_file, OF assms]
  have "isl (DataSet_init cast fs data_dir out_fn mean_fn std_fn feature_names target_names
               convolution dt)"
    unfolding DataSet_init_def by (rule isl_ebind) (rule ds(1))
  moreover have "isl (DataGenerator_init fs data_dir out_fn batch_size feature_names
                        target_names shuffle_mode convolution)"
    unfolding DataGenerator_init_def by (auto intro: isl_ebind dg(1))
  moreover have "DataSet_init cast fs data_dir out_fn mean_fn std_fn feature_names target_names
              convolution dt = Inl (KeyError ''TAP'')"
    if "fs (data_dir @ mean_fn) \<noteq> None" "fs (data_dir @ std_fn) \<noteq> None"
    unfolding DataSet_init_def by (simp add: ds(2) [OF that])
  moreover have "DataGenerator_init fs data_dir out_fn batch_size feature_names target_names
              shuffle_mode convolution = Inl (KeyError ''TAP'')"
    if "target_names = [''SPDT'', ''SPDQ'']" "fs (data_dir @ ''SPCAM_mean.nc'') \<noteq> None"
       "fs (data_dir @ ''SPCAM_std.nc'') \<noteq> None"
    unfolding DataGenerator_init_def by (simp add: dg(2) [OF that(2,3)] that(1))
  ultimately show ?thesis by blast
qed

text \<open>
  At the directory without \<^verbatim>\<open>TAP\<close>, with the single feature \<^verbatim>\<open>PS\<close>, which all three
  files hold, as the output file holds the two targets.
\<close>

theorem TAP_is_required_witness:
  "DataSet_init exact_cast demo_fs_no_TAP ''data/'' ''out.nc'' ''SPCAM_mean.nc'' ''SPCAM_std.nc''
     [''PS''] [''SPDT'', ''SPDQ''] False Float32 = Inl (KeyError ''TAP'')
   \<and> DataGenerator_init demo_fs_no_TAP ''data/'' ''out.nc'' 2 [''PS''] [''SPDT'', ''SPDQ'']
       ''batches'' False = Inl (KeyError ''TAP'')
   \<and> demo_out_no_TAP ''PS'' \<noteq> None \<and> demo_out_no_TAP ''SPDT'' \<noteq> None
   \<and> demo_out_no_TAP ''SPDQ'' \<noteq> None \<and> demo_mean ''PS'' \<noteq> None \<and> demo_std ''PS'' \<noteq> None"
proof -
  have f: "demo_fs_no_TAP (''data/'' @ ''out.nc'') = Some demo_out_no_TAP"
    by (simp add: demo_defs)
  have t: "demo_out_no_TAP ''TAP'' = None"
    by (simp add: demo_defs)
  show ?thesis
    using TAP_is_required [where fs = demo_fs_no_TAP and data_dir = "''data/''"
        and out_fn = "''out.nc''" and out_file = demo_out_no_TAP and cast = exact_cast
        and mean_fn = "''SPCAM_mean.nc''" and std_fn = "''SPCAM_std.nc''"
        and feature_names = "[''PS'']" and target_names = "[''SPDT'', ''SPDQ'']"
        and convolution = False and dt = Float32 and batch_size = 2
        and shuffle_mode = "''batches''", OF f t]
    by (simp add: demo_defs)
qed

subsection \<open>Broadcasting and normalization\<close>

lemma map2_replicate:
  "length xs = n \<Longrightarrow> map2 f xs (replicate n y) = map (\<lambda>l. f (xs ! l) y) [0..<n]"
  by (rule nth_equalityI) auto

lemma map2_nth:
  "length xs = n \<Longrightarrow> length ys = n \<Longrightarrow> map2 f xs ys = map (\<lambda>l. f (xs ! l) (ys ! l)) [0..<n]"
  by (rule nth_equalityI) auto

lemma map2_replicate_rows:
  "map2 g xs (replicate (length xs) y) = map (\<lambda>x. g x y) xs"
  by (rule nth_equalityI) auto

lemma stretch_single: "stretch n [x] = replicate n x"
  by (cases "n = 1") (simp_all add: stretch_def)

lemma stretch_same: "length xs = n \<Longrightarrow> stretch n xs = xs"
  by (simp add: stretch_def)

lemma length_stretch [simp]: "length (stretch n xs) = n"
  by (simp add: stretch_def)

lemma broadcast_dim_one [simp]: "broadcast_dim n (Suc 0) = Some n"
  by (simp add: broadcast_dim_def)

lemma broadcast_dim_same [simp]: "broadcast_dim n n = Some n"
  by (simp add: broadcast_dim_def)

lemma broadcast_op_per_level:
  assumes "rect a" and "per_level (ncols a) b"
  shows "broadcast_op f a b =
     Inr \<lparr>mdtype = result_dtype (mdtype a) b, ncols = ncols a,
          mrows = map (\<lambda>r. map (\<lambda>l. f (r ! l) (level_value b l)) [0..<ncols a]) (mrows a)\<rparr>"
proof (cases b)
  case (Arr0 d x)
  have "map2 (\<lambda>ra rb. map2 f (stretch (ncols a) ra) (stretch (ncols a) rb)) (mrows a)
          (replicate (length (mrows a)) [x])
        = map (\<lambda>r. map (\<lambda>l. f (r ! l) x) [0..<ncols a]) (mrows a)"
    unfolding map2_replicate_rows
    using assms(1)
    by (auto simp: rect_def list_all_iff stretch_single stretch_same map2_replicate)
  then show ?thesis
    using Arr0 by (simp add: broadcast_op_def Let_def nrows_def stretch_single stretch_same)
next
  case (Arr1 d xs)
  with assms(2) have len: "length xs = ncols a" by simp
  have "map2 (\<lambda>ra rb. map2 f (stretch (ncols a) ra) (stretch (ncols a) rb)) (mrows a)
          (replicate (length (mrows a)) xs)
        = map (\<lambda>r. map (\<lambda>l. f (r ! l) (xs ! l)) [0..<ncols a]) (mrows a)"
    unfolding map2_replicate_rows
    using assms(1) len
    by (auto simp: rect_def list_all_iff stretch_same map2_nth)
  then show ?thesis
    using Arr1 len by (simp add: broadcast_op_def Let_def nrows_def stretch_single stretch_same)
next
  case (Arr2 m)
  with assms(2) show ?thesis by simp
qed

lemma rect_transpose_mat: "rect (transpose_mat m)"
  by (simp add: rect_def transpose_mat_def nrows_def list_all_iff)

lemma transpose_mat_nth:
  "s < ncols m \<Longrightarrow> l < nrows m \<Longrightarrow> mrows (transpose_mat m) ! s ! l = mrows m ! l ! s"
  by (simp add: transpose_mat_def nrows_def)

lemma DataGenerator_f_list_nth:
  "DataGenerator_f_list out_file mean_file std_file names = Inr fl \<Longrightarrow> i < length names \<Longrightarrow>
   DataGenerator_feature out_file mean_file std_file (names ! i) = Inr (fl ! i)"
proof (induction names arbitrary: fl i)
  case Nil
  then show ?case by simp
next
  case (Cons v vs)
  from Cons.prems(1) obtain f fs where
    f: "DataGenerator_feature out_file mean_file std_file v = Inr f" and
    fs: "DataGenerator_f_list out_file mean_file std_file vs = Inr fs" and
    fl: "fl = f # fs"
    by (auto simp: ebind_def split: sum.splits)
  show ?case
  proof (cases i)
    case 0
    with f fl show ?thesis by simp
  next
    case (Suc j)
    with Cons.prems(2) have "j < length vs" by simp
    from Cons.IH [OF fs this] Suc fl show ?thesis by simp
  qed
qed

lemma DataSet_f_list_nth:
  "DataSet_f_list cast out_file mean_file std_file dt names = Inr fl \<Longrightarrow> i < length names \<Longrightarrow>
   DataSet_feature cast out_file mean_file std_file dt (names ! i) = Inr (fl ! i)"
proof (induction names arbitrary: fl i)
  case Nil
  then show ?case by simp
next
  case (Cons v vs)
  from Cons.prems(1) obtain f fs where
    f: "DataSet_feature cast out_file mean_file std_file dt v = Inr f" and
    fs: "DataSet_f_list cast out_file mean_file std_file dt vs = Inr fs" and
    fl: "fl = f # fs"
    by (auto simp: ebind_def split: sum.splits)
  show ?case
  proof (cases i)
    case 0
    with f fl show ?thesis by simp
  next
    case (Suc j)
    with Cons.prems(2) have "j < length vs" by simp
    from Cons.IH [OF fs this] Suc fl show ?thesis by simp
  qed
qed

lemma DataGenerator_feature_normalized:
  assumes "out_file v = Some raw" "mean_file v = Some mean" "std_file v = Some std"
      and "h5_read_all raw = Inr raw"
      and "per_level (nrows (atleast_2d raw)) mean" "per_level (nrows (atleast_2d raw)) std"
  shows "DataGenerator_feature out_file mean_file std_file v =
           Inr (normalized (atleast_2d raw) mean std)"
proof -
  let ?a = "atleast_2d raw"
  let ?t = "transpose_mat ?a"
  have nc: "ncols ?t = nrows ?a" by (simp add: transpose_mat_def)
  have sub: "np_subtract ?t mean =
     Inr \<lparr>mdtype = result_dtype (mdtype ?t) mean, ncols = ncols ?t,
          mrows = map (\<lambda>r. map (\<lambda>l. r ! l - level_value mean l) [0..<ncols ?t]) (mrows ?t)\<rparr>"
    unfolding np_subtract_def
    by (rule broadcast_op_per_level) (simp_all add: rect_transpose_mat nc assms(5))
  let ?m = "\<lparr>mdtype = result_dtype (mdtype ?t) mean, ncols = ncols ?t,
          mrows = map (\<lambda>r. map (\<lambda>l. r ! l - level_value mean l) [0..<ncols ?t]) (mrows ?t)\<rparr>"
  have rm: "rect ?m" by (simp add: rect_def list_all_iff)
  have div: "np_divide ?m std =
     Inr \<lparr>mdtype = result_dtype (mdtype ?m) std, ncols = ncols ?m,
          mrows = map (\<lambda>r. map (\<lambda>l. r ! l / level_value std l) [0..<ncols ?m]) (mrows ?m)\<rparr>"
    unfolding np_divide_def
    by (rule broadcast_op_per_level [OF rm]) (simp add: nc assms(6))
  have "DataGenerator_feature out_file mean_file std_file v =
     Inr \<lparr>mdtype = result_dtype (mdtype ?m) std, ncols = ncols ?m,
          mrows = map (\<lambda>r. map (\<lambda>l. r ! l / level_value std l) [0..<ncols ?m]) (mrows ?m)\<rparr>"
    using assms(1-4) sub div
    by (simp add: DataGenerator_feature_def h5_getitem_def h5_value_def)
  also have "\<dots> = Inr (normalized ?a mean std)"
    by (simp add: normalized_def nc) (simp add: transpose_mat_def nrows_def)
  finally show ?thesis .
qed

lemma DataSet_feature_cast:
  "DataSet_feature cast out_file mean_file std_file dt v =
     map_sum id (asarray_mat cast dt) (DataGenerator_feature out_file mean_file std_file v)"
  by (simp add: DataSet_feature_def DataGenerator_feature_def ebind_def split: sum.splits)

lemma normalized_shape:
  "nrows (normalized raw mean std) = ncols raw" "ncols (normalized raw mean std) = nrows raw"
  "rect (normalized raw mean std)"
  by (simp_all add: normalized_def nrows_def rect_def list_all_iff)

lemma normalized_nth:
  "s < ncols raw \<Longrightarrow> l < nrows raw \<Longrightarrow>
   mrows (normalized raw mean std) ! s ! l
     = (mrows raw ! l ! s - level_value mean l) / level_value std l"
  by (simp add: normalized_def)

lemma asarray_mat_nth:
  "rect m \<Longrightarrow> s < nrows m \<Longrightarrow> l < ncols m \<Longrightarrow>
   mrows (asarray_mat cast dt m) ! s ! l = cast dt (mrows m ! s ! l)"
  by (simp add: asarray_mat_def rect_def nrows_def list_all_iff)

subsection \<open>The conversion to a precision\<close>

text \<open>
  The rounding is to a nearest integer, the exponent is that of the value, and the
  converted value is within half a unit in the last place.
\<close>

lemma round_half_even_nearest: "\<bar>of_int (round_half_even q) - q\<bar> \<le> 1 / 2"
proof -
  have "0 \<le> q - of_int \<lfloor>q\<rfloor>" "q - of_int \<lfloor>q\<rfloor> < 1" by linarith+
  then show ?thesis
    unfolding round_half_even_def Let_def by (simp add: abs_if) linarith
qed

lemma floor_log2_bounds:
  assumes "0 < x"
  shows "2 powi floor_log2 x \<le> x \<and> x < 2 powi (floor_log2 x + 1)"
proof (cases "1 \<le> x")
  case True
  let ?n = "\<lfloor>x\<rfloor>"
  have n: "0 < ?n" using True by simp
  from bitlen_bounds [OF n] have b: "2 ^ nat (bitlen ?n - 1) \<le> ?n" "?n < 2 ^ nat (bitlen ?n)"
    by simp_all
  have p: "0 < bitlen ?n"
  proof (rule ccontr)
    assume "\<not> 0 < bitlen ?n"
    then have "nat (bitlen ?n) = 0" by simp
    with b(2) n show False by simp
  qed
  have "(2::rat) powi (bitlen ?n - 1) = of_int (2 ^ nat (bitlen ?n - 1))"
    using p by (simp add: power_int_def)
  also have "\<dots> \<le> of_int ?n" using b(1) by (simp only: of_int_le_iff)
  also have "\<dots> \<le> x" by simp
  finally have 1: "2 powi (bitlen ?n - 1) \<le> x" .
  have "?n + 1 \<le> 2 ^ nat (bitlen ?n)" using b(2) by simp
  then have "(of_int (?n + 1) :: rat) \<le> of_int (2 ^ nat (bitlen ?n))" by (simp only: of_int_le_iff)
  moreover have "x < of_int (?n + 1)" by linarith
  ultimately have "x < of_int (2 ^ nat (bitlen ?n))" by linarith
  also have "\<dots> = 2 powi (bitlen ?n)" using p by (simp add: power_int_def)
  finally have 2: "x < 2 powi (bitlen ?n - 1 + 1)" by simp
  from 1 2 True show ?thesis by (simp add: floor_log2_def)
next
  case False
  let ?y = "1 / x"
  let ?m = "\<lceil>?y\<rceil> - 1"
  have y: "1 < ?y" using False assms by simp
  then have m: "0 < ?m" by linarith
  from bitlen_bounds [OF m] have b: "2 ^ nat (bitlen ?m - 1) \<le> ?m" "?m < 2 ^ nat (bitlen ?m)"
    by simp_all
  have p: "0 < bitlen ?m"
  proof (rule ccontr)
    assume "\<not> 0 < bitlen ?m"
    then have "nat (bitlen ?m) = 0" by simp
    with b(2) m show False by simp
  qed
  have my: "of_int ?m < ?y" "?y \<le> of_int (?m + 1)" by linarith+
  have "?m + 1 \<le> 2 ^ nat (bitlen ?m)" using b(2) by simp
  then have "(of_int (?m + 1) :: rat) \<le> of_int (2 ^ nat (bitlen ?m))" by (simp only: of_int_le_iff)
  with my(2) have "?y \<le> of_int (2 ^ nat (bitlen ?m))" by linarith
  also have "\<dots> = 2 powi (bitlen ?m)" using p by (simp add: power_int_def)
  finally have "?y \<le> 2 powi (bitlen ?m)" .
  then have "1 \<le> x * 2 powi (bitlen ?m)" using assms by (simp add: field_simps)
  then have 1: "2 powi (- bitlen ?m) \<le> x"
    by (simp add: power_int_minus field_simps)
  have "(2::rat) powi (bitlen ?m - 1) = of_int (2 ^ nat (bitlen ?m - 1))"
    using p by (simp add: power_int_def)
  also have "\<dots> \<le> of_int ?m" using b(1) by (simp only: of_int_le_iff)
  also have "\<dots> < ?y" using my(1) .
  finally have "2 powi (bitlen ?m - 1) < ?y" .
  then have "x * 2 powi (bitlen ?m - 1) < 1" using assms by (simp add: field_simps)
  then have "x < 1 / 2 powi (bitlen ?m - 1)" by (simp add: pos_less_divide_eq)
  also have "1 / (2::rat) powi (bitlen ?m - 1) = 2 powi (- (bitlen ?m - 1))"
    by (simp only: power_int_minus inverse_eq_divide)
  finally have 2: "x < 2 powi (- bitlen ?m + 1)" by simp
  from 1 2 False show ?thesis by (simp add: floor_log2_def)
qed

lemma float_round_nearest:
  assumes "x \<noteq> 0"
  shows "\<bar>float_round p x - x\<bar> \<le> 2 powi (floor_log2 \<bar>x\<bar> - int p + 1) / 2"
proof -
  let ?u = "(2::rat) powi (floor_log2 \<bar>x\<bar> - int p + 1)"
  have u: "0 < ?u" by simp
  have "float_round p x - x = (of_int (round_half_even (x / ?u)) - x / ?u) * ?u"
    using assms u by (simp add: float_round_def Let_def field_simps)
  then have "\<bar>float_round p x - x\<bar> = \<bar>of_int (round_half_even (x / ?u)) - x / ?u\<bar> * ?u"
    using u by (simp only: abs_mult) simp
  also have "\<dots> \<le> 1 / 2 * ?u"
    by (rule mult_right_mono [OF round_half_even_nearest]) simp
  finally show ?thesis by simp
qed

text \<open>The conversions to float32 that the concrete inputs need.\<close>

lemma ieee_cast_values:
  "ieee_cast Float32 16777217 = 16777216" "ieee_cast Float32 16777219 = 16777220"
  "ieee_cast Float32 0 = 0" "ieee_cast Float32 (1 / 2) = 1 / 2"
  "ieee_cast Float32 1000 = 1000" "ieee_cast Float32 2000 = 2000"
  "ieee_cast Float32 2500000 = 2500000" "ieee_cast Float32 5000000 = 5000000"
  by code_simp+

text \<open>
  The numbers of the small data directory, and those that the loaders compute from it,
  are their own conversions to float32.
\<close>

lemma exact_cast_demo:
  "list_all (\<lambda>x. ieee_cast Float32 x = exact_cast Float32 x)
     [- 2, - 1, - (1 / 2), 0, 1 / 2, 1, 2,
      1000, 2000, 3000, 4000, 5000, 6000, 7000, 8000, 9000, 10000,
      27500000, 30000000, 32500000, 35000000, 37500000,
      40000000, 42500000, 45000000, 47500000, 50000000]"
  by code_simp

subsection \<open>The normalized features\<close>

text \<open>
  Claim C9: for a requested feature variable the loaded values are
  \<open>(raw - mean) / std\<close> element by element, with mean and standard deviation found under
  the name of the variable and taken at the level of the element, and with the raw
  variable transposed so that the sample is the leading axis. This is what the body of
  the loop computes in both classes (for a variable that is not a scalar, with statistics
  that are scalars or hold one value per level), and it is the value that
  \<^verbatim>\<open>DataGenerator\<close> holds. \<^verbatim>\<open>DataSet\<close> then converts each such value to its precision:
  the value that it holds is the conversion of \<open>(raw - mean) / std\<close>, and not this value
  itself where the conversion rounds. Entry \<open>i\<close> of the list that the loop builds is the
  array of name \<open>i\<close>.
\<close>

theorem features_are_normalized:
  assumes "out_file v = Some raw" and "mean_file v = Some mean" and "std_file v = Some std"
      and "h5_read_all raw = Inr raw"
      and "per_level (nrows (atleast_2d raw)) mean" and "per_level (nrows (atleast_2d raw)) std"
  shows "\<exists>f. DataGenerator_feature out_file mean_file std_file v = Inr f
           \<and> DataSet_feature cast out_file mean_file std_file dt v = Inr (asarray_mat cast dt f)
           \<and> nrows f = ncols (atleast_2d raw) \<and> ncols f = nrows (atleast_2d raw)
           \<and> (\<forall>s<ncols (atleast_2d raw). \<forall>l<nrows (atleast_2d raw).
                 mrows f ! s ! l
                   = (mrows (atleast_2d raw) ! l ! s - level_value mean l) / level_value std l
               \<and> mrows (asarray_mat cast dt f) ! s ! l
                   = cast dt ((mrows (atleast_2d raw) ! l ! s - level_value mean l)
                              / level_value std l))
           \<and> (\<forall>names fl i. DataGenerator_f_list out_file mean_file std_file names = Inr fl
                 \<and> i < length names \<and> names ! i = v \<longrightarrow> fl ! i = f)
           \<and> (\<forall>names fl i. DataSet_f_list cast out_file mean_file std_file dt names = Inr fl
                 \<and> i < length names \<and> names ! i = v \<longrightarrow> fl ! i = asarray_mat cast dt f)"
proof -
  let ?f = "normalized (atleast_2d raw) mean std"
  have g: "DataGenerator_feature out_file mean_file std_file v = Inr ?f"
    by (rule DataGenerator_feature_normalized) (fact assms)+
  have d: "DataSet_feature cast out_file mean_file std_file dt v = Inr (asarray_mat cast dt ?f)"
    by (simp add: DataSet_feature_cast g)
  have e: "mrows ?f ! s ! l
             = (mrows (atleast_2d raw) ! l ! s - level_value mean l) / level_value std l
         \<and> mrows (asarray_mat cast dt ?f) ! s ! l
             = cast dt ((mrows (atleast_2d raw) ! l ! s - level_value mean l) / level_value std l)"
    if "s < ncols (atleast_2d raw)" "l < nrows (atleast_2d raw)" for s l
    using that by (simp add: asarray_mat_nth normalized_shape normalized_nth)
  have lg: "fl ! i = ?f"
    if "DataGenerator_f_list out_file mean_file std_file names = Inr fl" "i < length names"
       "names ! i = v" for names fl i
    using DataGenerator_f_list_nth [of out_file mean_file std_file names fl i] that g by simp
  have ld: "fl ! i = asarray_mat cast dt ?f"
    if "DataSet_f_list cast out_file mean_file std_file dt names = Inr fl" "i < length names"
       "names ! i = v" for names fl i
    using DataSet_f_list_nth [of cast out_file mean_file std_file dt names fl i] that d by simp
  show ?thesis
    apply (rule exI [of _ ?f])
    using g d e lg ld by (simp add: normalized_shape) blast
qed

theorem features_are_normalized_witness:
  "DataGenerator_feature round_out round_mean round_std ''TAP''
     = Inr \<lparr>mdtype = Float64, ncols = 2, mrows = [[16777217, 0], [16777219, 1 / 2]]\<rparr>
   \<and> (\<exists>f. DataGenerator_feature round_out round_mean round_std ''TAP'' = Inr f
         \<and> DataSet_feature ieee_cast round_out round_mean round_std Float32 ''TAP''
             = Inr (asarray_mat ieee_cast Float32 f)
         \<and> mrows f ! 1 ! 1 = (2 - 1) / 2
         \<and> mrows (asarray_mat ieee_cast Float32 f) ! 0 ! 0 = 16777216)"
proof -
  let ?raw = "Arr2 \<lparr>mdtype = Float64, ncols = 2,
                    mrows = [[16777217, 16777219], [1, 2 :: rat]]\<rparr>"
  have h: "round_out ''TAP'' = Some ?raw" "round_mean ''TAP'' = Some (Arr1 Float64 [0, 1])"
    "round_std ''TAP'' = Some (Arr1 Float64 [1, 2])" "h5_read_all ?raw = Inr ?raw"
    "per_level (nrows (atleast_2d ?raw)) (Arr1 Float64 [0, 1 :: rat])"
    "per_level (nrows (atleast_2d ?raw)) (Arr1 Float64 [1, 2 :: rat])"
    by (simp_all add: round_defs nrows_def)
  from features_are_normalized [of round_out "''TAP''" ?raw round_mean "Arr1 Float64 [0, 1]"
      round_std "Arr1 Float64 [1, 2]" ieee_cast Float32, OF h]
  obtain f where f: "DataGenerator_feature round_out round_mean round_std ''TAP'' = Inr f"
    "DataSet_feature ieee_cast round_out round_mean round_std Float32 ''TAP''
       = Inr (asarray_mat ieee_cast Float32 f)"
    "\<forall>s<ncols (atleast_2d ?raw). \<forall>l<nrows (atleast_2d ?raw).
        mrows f ! s ! l
          = (mrows (atleast_2d ?raw) ! l ! s - level_value (Arr1 Float64 [0, 1]) l)
            / level_value (Arr1 Float64 [1, 2]) l
        \<and> mrows (asarray_mat ieee_cast Float32 f) ! s ! l
          = ieee_cast Float32 ((mrows (atleast_2d ?raw) ! l ! s
               - level_value (Arr1 Float64 [0, 1]) l) / level_value (Arr1 Float64 [1, 2]) l)"
    by blast
  from f(3) have "mrows f ! 1 ! 1 = (2 - 1) / 2"
    "mrows (asarray_mat ieee_cast Float32 f) ! 0 ! 0 = 16777216"
    by (simp_all add: nrows_def ieee_cast_values)
  moreover have "DataGenerator_feature round_out round_mean round_std ''TAP''
     = Inr \<lparr>mdtype = Float64, ncols = 2, mrows = [[16777217, 0], [16777219, 1 / 2]]\<rparr>"
    by (simp add: loader_defs numpy_defs round_defs eval_nat_numeral upt_rec)
  ultimately show ?thesis using f(1,2) by blast
qed

text \<open>
  Data stored in float64 and loaded in float32: the value 16777217 of \<^verbatim>\<open>TAP\<close>, with
  mean 0 and standard deviation 1, is loaded as 16777216, and 16777219 as 16777220.
\<close>

theorem conversion_rounds_counterexample:
  "DataSet_init ieee_cast round_fs ''data/'' ''out.nc'' ''SPCAM_mean.nc'' ''SPCAM_std.nc''
      [''TAP''] [''SPDT'', ''SPDQ''] False Float32 =
   Inr \<lparr>ds_data_dir = ''data/'', ds_out_fn = ''data/out.nc'',
        ds_mean_fn = ''data/SPCAM_mean.nc'',
        ds_std_fn = ''data/SPCAM_std.nc'', ds_convolution = False,
        ds_feature_names = [''TAP''],
        ds_target_names = [''SPDT'', ''SPDQ''], ds_dtype = Float32,
        ds_n_samples = 2,
        ds_features = Flat \<lparr>mdtype = Float32, ncols = 2,
                            mrows = [[16777216, 0], [16777220, 1 / 2]]\<rparr>,
        ds_targets = Arr2 \<lparr>mdtype = Float32, ncols = 2,
                           mrows = [[1000, 2500000], [2000, 5000000]]\<rparr>\<rparr>
   \<and> (16777216 :: rat) \<noteq> (16777217 - 0) / 1"
  by (simp add: loader_defs numpy_defs round_defs ieee_cast_values eval_nat_numeral upt_rec)

subsection \<open>The target matrix\<close>

text \<open>
  Claim C5: the target matrix holds \<^verbatim>\<open>SPDT\<close> times 1000 and \<^verbatim>\<open>SPDQ\<close> times 2.5e6,
  concatenated and transposed so that the sample is the leading axis, and its columns 0
  and 1 are the heating times 1000 and the moistening times 2.5e6. The concatenation is
  along axis 0, which is the level axis of the stored variables, so that the row of a
  sample holds all levels of the heating and then all levels of the moistening: column
  \<open>j\<close> is level \<open>j\<close> of the heating for \<open>j\<close> below the number of its levels, and the
  moistening starts after the last level of the heating. Column 1 is moistening only
  when the heating has a single level. \<^verbatim>\<open>DataSet\<close> converts the matrix to its
  precision.
\<close>

theorem targets_layout:
  assumes "fs out_fn = Some out_file"
      and "out_file ''SPDT'' = Some (Arr2 heating)"
      and "out_file ''SPDQ'' = Some (Arr2 moistening)"
      and "rect heating" and "rect moistening" and "ncols moistening = ncols heating"
  shows "\<exists>t. DataGenerator_get_targets fs out_fn = Inr (Arr2 t)
           \<and> DataSet_get_targets cast fs out_fn dt = Inr (Arr2 (asarray_mat cast dt t))
           \<and> nrows t = ncols heating \<and> ncols t = nrows heating + nrows moistening \<and> rect t
           \<and> (\<forall>s<ncols heating.
                 (\<forall>j<nrows heating. mrows t ! s ! j = mrows heating ! j ! s * 1000)
               \<and> (\<forall>j<nrows moistening.
                     mrows t ! s ! (nrows heating + j) = mrows moistening ! j ! s * 2500000))"
proof -
  let ?h = "map (map (\<lambda>x. x * 1000)) (mrows heating)"
  let ?q = "map (map (\<lambda>x. x * 2500000)) (mrows moistening)"
  let ?t = "transpose_mat \<lparr>mdtype = promote (promote (mdtype heating) Float16) (promote (mdtype moistening) Float32),
                           ncols = ncols heating, mrows = ?h @ ?q\<rparr>"
  have g: "DataGenerator_get_targets fs out_fn = Inr (Arr2 ?t)"
    using assms(1-3,6) by (simp add: DataGenerator_get_targets_def h5_open_def h5_getitem_def)
  have d: "DataSet_get_targets cast fs out_fn dt = Inr (Arr2 (asarray_mat cast dt ?t))"
    using assms(1-3,6) by (simp add: DataSet_get_targets_def h5_open_def h5_getitem_def)
  have shape: "nrows ?t = ncols heating" "ncols ?t = nrows heating + nrows moistening"
    by (simp_all add: transpose_mat_def nrows_def)
  have hrow: "mrows ?t ! s ! j = mrows heating ! j ! s * 1000"
    if "s < ncols heating" "j < nrows heating" for s j
  proof -
    from that(2) assms(4) have "length (mrows heating ! j) = ncols heating"
      by (simp add: rect_def nrows_def list_all_iff)
    with that show ?thesis
      by (simp add: transpose_mat_def nrows_def nth_append)
  qed
  have qrow: "mrows ?t ! s ! (nrows heating + j) = mrows moistening ! j ! s * 2500000"
    if "s < ncols heating" "j < nrows moistening" for s j
  proof -
    from that(2) assms(5,6) have "length (mrows moistening ! j) = ncols heating"
      by (simp add: rect_def nrows_def list_all_iff)
    with that show ?thesis
      by (simp add: transpose_mat_def nrows_def nth_append)
  qed
  show ?thesis
    apply (rule exI [of _ ?t])
    using g d shape hrow qrow rect_transpose_mat [of "\<lparr>mdtype = promote (promote (mdtype heating) Float16) (promote (mdtype moistening) Float32),
                           ncols = ncols heating, mrows = ?h @ ?q\<rparr>"]
    by simp
qed

text \<open>At the directory above, whose targets have two levels.\<close>

theorem targets_layout_witness:
  "\<exists>t. DataGenerator_get_targets demo_fs ''data/out.nc'' = Inr (Arr2 t)
      \<and> DataSet_get_targets exact_cast demo_fs ''data/out.nc'' Float32
          = Inr (Arr2 (asarray_mat exact_cast Float32 t))
      \<and> nrows t = 5 \<and> ncols t = 4
      \<and> mrows t ! 2 ! 1 = 8 * 1000 \<and> mrows t ! 2 ! 3 = 18 * 2500000"
proof -
  let ?h = "\<lparr>mdtype = Float64, ncols = 5, mrows = [[1, 2, 3, 4, 5], [6, 7, 8, 9, 10 :: rat]]\<rparr>"
  let ?q = "\<lparr>mdtype = Float64, ncols = 5,
             mrows = [[11, 12, 13, 14, 15], [16, 17, 18, 19, 20 :: rat]]\<rparr>"
  have h: "demo_fs ''data/out.nc'' = Some demo_out" "demo_out ''SPDT'' = Some (Arr2 ?h)"
    "demo_out ''SPDQ'' = Some (Arr2 ?q)" "rect ?h" "rect ?q" "ncols ?q = ncols ?h"
    by (simp_all add: demo_defs rect_def)
  from targets_layout [of demo_fs "''data/out.nc''" demo_out ?h ?q exact_cast Float32, OF h]
  obtain t where t: "DataGenerator_get_targets demo_fs ''data/out.nc'' = Inr (Arr2 t)"
    "DataSet_get_targets exact_cast demo_fs ''data/out.nc'' Float32
       = Inr (Arr2 (asarray_mat exact_cast Float32 t))"
    "nrows t = ncols ?h" "ncols t = nrows ?h + nrows ?q"
    "\<forall>s<ncols ?h. (\<forall>j<nrows ?h. mrows t ! s ! j = mrows ?h ! j ! s * 1000)
        \<and> (\<forall>j<nrows ?q. mrows t ! s ! (nrows ?h + j) = mrows ?q ! j ! s * 2500000)"
    by blast
  from t(5) have "mrows t ! 2 ! 1 = mrows ?h ! 1 ! 2 * 1000"
    by (simp add: nrows_def)
  moreover from t(5) have "mrows t ! 2 ! (nrows ?h + 1) = mrows ?q ! 1 ! 2 * 2500000"
    by (simp add: nrows_def)
  ultimately have "mrows t ! 2 ! 1 = 8 * 1000 \<and> mrows t ! 2 ! 3 = 18 * 2500000"
    by (simp add: nrows_def eval_nat_numeral)
  with t(1-4) show ?thesis by (auto simp: nrows_def)
qed

text \<open>
  With two levels, column 1 of the target matrix is the second level of the heating
  times 1000, and neither level of the moistening times 2.5e6.
\<close>

theorem second_target_column_counterexample:
  "DataGenerator_get_targets demo_fs ''data/out.nc'' = Inr demo_targets
   \<and> demo_out ''SPDT'' = Some (Arr2 \<lparr>mdtype = Float64, ncols = 5,
                                      mrows = [[1, 2, 3, 4, 5], [6, 7, 8, 9, 10]]\<rparr>)
   \<and> demo_out ''SPDQ'' = Some (Arr2 \<lparr>mdtype = Float64, ncols = 5,
                                      mrows = [[11, 12, 13, 14, 15], [16, 17, 18, 19, 20]]\<rparr>)
   \<and> target_column demo_targets 1 = Inr (np_scale (Arr1 Float64 [6, 7, 8, 9, 10]) 1000 Float16)
   \<and> target_column demo_targets 1 \<noteq> Inr (np_scale (Arr1 Float64 [11, 12, 13, 14, 15]) 2500000 Float32)
   \<and> target_column demo_targets 1 \<noteq> Inr (np_scale (Arr1 Float64 [16, 17, 18, 19, 20]) 2500000 Float32)"
  by (simp add: loader_defs numpy_defs demo_defs demo_targets_def upt_5)

subsection \<open>The precision of the arrays\<close>

lemma DataSet_f_list_cast:
  "DataSet_f_list cast out_file mean_file std_file dt names =
     map_sum id (map (asarray_mat cast dt)) (DataGenerator_f_list out_file mean_file std_file names)"
  by (induction names) (auto simp: DataSet_feature_cast ebind_def split: sum.splits)

lemma broadcast_op_rect: "broadcast_op f a b = Inr m \<Longrightarrow> rect m"
  by (auto simp: broadcast_op_def Let_def rect_def list_all_iff
      split: option.splits dest!: set_zip_leftD)

lemma DataGenerator_feature_rect:
  "DataGenerator_feature out_file mean_file std_file v = Inr f \<Longrightarrow> rect f"
  by (auto simp: DataGenerator_feature_def ebind_def np_divide_def
      split: sum.splits dest: broadcast_op_rect)

lemma DataGenerator_f_list_rect:
  "DataGenerator_f_list out_file mean_file std_file names = Inr fl \<Longrightarrow> list_all rect fl"
  by (induction names arbitrary: fl)
     (auto simp: ebind_def split: sum.splits dest: DataGenerator_feature_rect)

lemma asarray_mat_simps [simp]:
  "nrows (asarray_mat cast d m) = nrows m" "ncols (asarray_mat cast d m) = ncols m"
  "mdtype (asarray_mat cast d m) = d"
  "mrows (asarray_mat cast d m) = map (map (cast d)) (mrows m)"
  by (simp_all add: asarray_mat_def nrows_def)

lemma promote_idem [simp]: "promote d d = d" "promote d Float16 = d"
  by (cases d; simp add: promote_def)+

lemma foldr_promote_same:
  "list_all (\<lambda>x. x = d) ds \<Longrightarrow> foldr promote ds Float16 = (if ds = [] then Float16 else d)"
  by (induction ds) auto

lemma promote_all_const: "ms \<noteq> [] \<Longrightarrow> promote_all (map (\<lambda>x. d) ms) = d"
  unfolding promote_all_def
  by (subst foldr_promote_same [where d = d]) (simp_all add: list_all_iff)

lemma promote_all_cast:
  "ms \<noteq> [] \<Longrightarrow> promote_all (map mdtype (map (asarray_mat cast d) ms)) = d"
  by (simp add: comp_def promote_all_const)

lemma concat_rows_cast:
  assumes "\<forall>m\<in>set ms. i < nrows m"
  shows "concat (map (\<lambda>m. mrows (asarray_mat cast d m) ! i) ms)
       = map (cast d) (concat (map (\<lambda>m. mrows m ! i) ms))"
  using assms by (induction ms) (simp_all add: nrows_def)

lemma same_nrows_cast:
  "same_nrows (map (asarray_mat cast d) ms) = same_nrows ms"
  by (cases ms) (simp_all add: same_nrows_def list_all_iff)

lemma same_nrowsD: "same_nrows ms \<Longrightarrow> m \<in> set ms \<Longrightarrow> i < nrows (hd ms) \<Longrightarrow> i < nrows m"
  by (simp add: same_nrows_def list_all_iff)

lemma np_concatenate1_unfold:
  "np_concatenate1 ms =
     (if ms = [] \<or> \<not> same_nrows ms then Inl ValueError
      else Inr \<lparr>mdtype = promote_all (map mdtype ms), ncols = sum_list (map ncols ms),
                mrows = map (\<lambda>i. concat (map (\<lambda>m. mrows m ! i) ms)) [0..<nrows (hd ms)]\<rparr>)"
  by (simp add: np_concatenate1_def same_nrows_def)

lemma concat_rows_cast_all:
  assumes "same_nrows ms"
  shows "map (\<lambda>i. concat (map (\<lambda>m. mrows (asarray_mat cast d m) ! i) ms)) [0..<nrows (hd ms)]
       = map (\<lambda>i. map (cast d) (concat (map (\<lambda>m. mrows m ! i) ms))) [0..<nrows (hd ms)]"
proof (rule map_cong [OF refl])
  fix i assume "i \<in> set [0..<nrows (hd ms)]"
  then have "\<forall>m\<in>set ms. i < nrows m"
    using same_nrowsD [OF assms] by simp
  then show "concat (map (\<lambda>m. mrows (asarray_mat cast d m) ! i) ms)
           = map (cast d) (concat (map (\<lambda>m. mrows m ! i) ms))"
    by (rule concat_rows_cast)
qed

lemma np_concatenate1_cast:
  "np_concatenate1 (map (asarray_mat cast d) ms)
     = map_sum id (asarray_mat cast d) (np_concatenate1 ms)"
proof (cases "ms = [] \<or> \<not> same_nrows ms")
  case True
  then show ?thesis
    by (auto simp: np_concatenate1_unfold same_nrows_cast)
next
  case False
  then have ne: "ms \<noteq> []" and same: "same_nrows ms" by simp_all
  have "np_concatenate1 (map (asarray_mat cast d) ms)
      = Inr \<lparr>mdtype = d, ncols = sum_list (map ncols ms),
             mrows = map (\<lambda>i. concat (map (\<lambda>m. mrows (asarray_mat cast d m) ! i) ms))
                       [0..<nrows (hd ms)]\<rparr>"
    using ne same
    by (simp add: np_concatenate1_unfold same_nrows_cast promote_all_const hd_map comp_def)
  also have "\<dots> = Inr (asarray_mat cast d
       \<lparr>mdtype = promote_all (map mdtype ms), ncols = sum_list (map ncols ms),
        mrows = map (\<lambda>i. concat (map (\<lambda>m. mrows m ! i) ms)) [0..<nrows (hd ms)]\<rparr>)"
    by (simp only: concat_rows_cast_all [OF same]) (simp add: asarray_mat_def comp_def)
  also have "\<dots> = map_sum id (asarray_mat cast d) (np_concatenate1 ms)"
    using ne same by (simp add: np_concatenate1_unfold)
  finally show ?thesis .
qed

lemma same_shape_cast:
  "same_shape (map (asarray_mat cast d) ms) = same_shape ms"
  by (cases ms) (simp_all add: same_shape_def list_all_iff)

lemma same_shapeD:
  "same_shape ms \<Longrightarrow> m \<in> set ms \<Longrightarrow> nrows m = nrows (hd ms) \<and> ncols m = ncols (hd ms)"
  by (simp add: same_shape_def list_all_iff)

lemma np_stack_last_unfold:
  "np_stack_last ms =
     (if ms = [] \<or> \<not> same_shape ms then Inl ValueError
      else Inr \<lparr>cdtype = promote_all (map mdtype ms), cshape = (ncols (hd ms), length ms),
                cdata = map (\<lambda>i. map (\<lambda>j. map (\<lambda>m. mrows m ! i ! j) ms) [0..<ncols (hd ms)])
                          [0..<nrows (hd ms)]\<rparr>)"
  by (simp add: np_stack_last_def same_shape_def)

lemma stack_entry_cast:
  assumes "\<forall>m\<in>set ms. rect m \<and> i < nrows m \<and> j < ncols m"
  shows "map (\<lambda>m. mrows (asarray_mat cast d m) ! i ! j) ms
       = map (cast d) (map (\<lambda>m. mrows m ! i ! j) ms)"
  using assms by (induction ms) (simp_all add: nrows_def rect_def list_all_iff)

lemma stack_rows_cast:
  assumes "same_shape ms" and "list_all rect ms"
  shows "map (\<lambda>i. map (\<lambda>j. map (\<lambda>m. mrows (asarray_mat cast d m) ! i ! j) ms)
                   [0..<ncols (hd ms)]) [0..<nrows (hd ms)]
       = map (map (map (cast d)))
           (map (\<lambda>i. map (\<lambda>j. map (\<lambda>m. mrows m ! i ! j) ms) [0..<ncols (hd ms)])
              [0..<nrows (hd ms)])"
proof -
  have "map (\<lambda>m. mrows (asarray_mat cast d m) ! i ! j) ms
          = map (cast d) (map (\<lambda>m. mrows m ! i ! j) ms)"
    if "i < nrows (hd ms)" "j < ncols (hd ms)" for i j
  proof (rule stack_entry_cast, rule ballI)
    fix m assume m: "m \<in> set ms"
    with assms(2) have "rect m" by (simp add: list_all_iff)
    with same_shapeD [OF assms(1) m] that show "rect m \<and> i < nrows m \<and> j < ncols m"
      by simp
  qed
  then have "map (\<lambda>i. map (\<lambda>j. map (\<lambda>m. mrows (asarray_mat cast d m) ! i ! j) ms)
                   [0..<ncols (hd ms)]) [0..<nrows (hd ms)]
       = map (\<lambda>i. map (\<lambda>j. map (cast d) (map (\<lambda>m. mrows m ! i ! j) ms))
                   [0..<ncols (hd ms)]) [0..<nrows (hd ms)]"
    by (intro map_cong [OF refl]) simp
  also have "\<dots> = map (map (map (cast d)))
           (map (\<lambda>i. map (\<lambda>j. map (\<lambda>m. mrows m ! i ! j) ms) [0..<ncols (hd ms)])
              [0..<nrows (hd ms)])"
    by (simp add: comp_def)
  finally show ?thesis .
qed

lemma np_stack_last_cast:
  assumes "list_all rect ms"
  shows "np_stack_last (map (asarray_mat cast d) ms)
       = map_sum id (asarray3 cast d) (np_stack_last ms)"
proof (cases "ms = [] \<or> \<not> same_shape ms")
  case True
  then show ?thesis
    by (auto simp: np_stack_last_unfold same_shape_cast)
next
  case False
  then have ne: "ms \<noteq> []" and same: "same_shape ms" by simp_all
  have "np_stack_last (map (asarray_mat cast d) ms)
      = Inr \<lparr>cdtype = d, cshape = (ncols (hd ms), length ms),
             cdata = map (\<lambda>i. map (\<lambda>j. map (\<lambda>m. mrows (asarray_mat cast d m) ! i ! j) ms)
                   [0..<ncols (hd ms)]) [0..<nrows (hd ms)]\<rparr>"
    using ne same
    by (simp add: np_stack_last_unfold same_shape_cast promote_all_const hd_map comp_def)
  also have "\<dots> = Inr (asarray3 cast d
       \<lparr>cdtype = promote_all (map mdtype ms), cshape = (ncols (hd ms), length ms),
        cdata = map (\<lambda>i. map (\<lambda>j. map (\<lambda>m. mrows m ! i ! j) ms) [0..<ncols (hd ms)])
                  [0..<nrows (hd ms)]\<rparr>)"
    by (simp only: stack_rows_cast [OF same assms]) (simp add: asarray3_def)
  also have "\<dots> = map_sum id (asarray3 cast d) (np_stack_last ms)"
    using ne same by (simp add: np_stack_last_unfold)
  finally show ?thesis .
qed

lemma filter_cast:
  "filter (\<lambda>f. P (ncols f)) (map (asarray_mat cast d) fl)
     = map (asarray_mat cast d) (filter (\<lambda>f. P (ncols f)) fl)"
  by (induction fl) simp_all

lemma rect_filter: "list_all rect fl \<Longrightarrow> list_all rect (filter P fl)"
  by (simp add: list_all_iff)

lemma assemble_cast:
  assumes "list_all rect fl"
  shows "(if convolution then
            ebind (np_stack_last (filter (\<lambda>f. ncols f > 1) (map (asarray_mat cast d) fl))) (\<lambda>f_2d.
            ebind (np_concatenate1 (filter (\<lambda>f. ncols f = 1) (map (asarray_mat cast d) fl)))
              (\<lambda>f_1d. Inr (n, Conv f_2d f_1d)))
          else ebind (np_concatenate1 (map (asarray_mat cast d) fl)) (\<lambda>f. Inr (n, Flat f)))
       = map_sum id (map_prod id (asarray_features cast d))
          (if convolution then
            ebind (np_stack_last (filter (\<lambda>f. ncols f > 1) fl)) (\<lambda>f_2d.
            ebind (np_concatenate1 (filter (\<lambda>f. ncols f = 1) fl))
              (\<lambda>f_1d. Inr (n, Conv f_2d f_1d)))
          else ebind (np_concatenate1 fl) (\<lambda>f. Inr (n, Flat f)))"
proof (cases convolution)
  case False
  then show ?thesis
    by (simp add: np_concatenate1_cast ebind_def split: sum.splits)
next
  case True
  have s: "np_stack_last (filter (\<lambda>f. 1 < ncols f) (map (asarray_mat cast d) fl))
         = map_sum id (asarray3 cast d) (np_stack_last (filter (\<lambda>f. 1 < ncols f) fl))"
    unfolding filter_cast [where P = "\<lambda>c. 1 < c"]
    by (rule np_stack_last_cast) (rule rect_filter [OF assms])
  have c: "np_concatenate1 (filter (\<lambda>f. ncols f = 1) (map (asarray_mat cast d) fl))
         = map_sum id (asarray_mat cast d) (np_concatenate1 (filter (\<lambda>f. ncols f = 1) fl))"
    unfolding filter_cast [where P = "\<lambda>c. c = 1"]
    by (rule np_concatenate1_cast)
  show ?thesis
    using True by (simp only: s c if_True) (simp add: ebind_def split: sum.splits)
qed

lemma map_sum_ebind: "map_sum id g (ebind m f) = ebind m (\<lambda>x. map_sum id g (f x))"
  by (cases m) simp_all

lemma get_features_cast:
  "DataSet_get_features cast fs out_fn mean_fn std_fn names convolution dt
     = map_sum id (map_prod id (asarray_features cast dt))
         (DataGenerator_get_features fs out_fn mean_fn std_fn names convolution)"
proof -
  have "ebind (DataSet_f_list cast out_file mean_file std_file dt names) (\<lambda>f_list.
          if convolution then
            ebind (np_stack_last (filter (\<lambda>f. ncols f > 1) f_list)) (\<lambda>f_2d.
            ebind (np_concatenate1 (filter (\<lambda>f. ncols f = 1) f_list))
              (\<lambda>f_1d. Inr (n, Conv f_2d f_1d)))
          else ebind (np_concatenate1 f_list) (\<lambda>f. Inr (n, Flat f)))
      = map_sum id (map_prod id (asarray_features cast dt))
         (ebind (DataGenerator_f_list out_file mean_file std_file names) (\<lambda>f_list.
          if convolution then
            ebind (np_stack_last (filter (\<lambda>f. ncols f > 1) f_list)) (\<lambda>f_2d.
            ebind (np_concatenate1 (filter (\<lambda>f. ncols f = 1) f_list))
              (\<lambda>f_1d. Inr (n, Conv f_2d f_1d)))
          else ebind (np_concatenate1 f_list) (\<lambda>f. Inr (n, Flat f))))"
    for out_file mean_file std_file :: "'a h5file" and n
  proof (cases "DataGenerator_f_list out_file mean_file std_file names")
    case (Inl e)
    then show ?thesis by (simp add: DataSet_f_list_cast)
  next
    case (Inr fl)
    then have r: "list_all rect fl" by (rule DataGenerator_f_list_rect)
    show ?thesis
      by (simp only: DataSet_f_list_cast Inr map_sum.simps id_apply ebind_Inr
            assemble_cast [OF r])
  qed
  note tail = this
  show ?thesis
    unfolding DataSet_get_features_def DataGenerator_get_features_def
    by (simp only: map_sum_ebind tail)
qed

lemma get_targets_cast:
  "DataSet_get_targets cast fs out_fn dt
     = map_sum id (asarray cast dt) (DataGenerator_get_targets fs out_fn)"
  unfolding DataSet_get_targets_def DataGenerator_get_targets_def
  by (simp add: ebind_def split: sum.splits)

lemma upt_3: "[0..<3] = [0, 1, 2]"
  by (simp add: upt_rec)

lemma demo_generator_init:
  "DataGenerator_init demo_fs ''data/'' ''out.nc'' 2 [''TAP'', ''PS''] [''SPDT'', ''SPDQ'']
     ''batches'' False = Inr demo_generator"
  by (simp add: loader_defs numpy_defs demo_defs demo_generator_def demo_targets_def upt_5 upt_3)

text \<open>
  Claim C2: on a common configuration the arrays of the generator are those of the
  dataset loader, precision included. The generator has no precision to configure and
  converts nothing: its arrays are in the precision that the arithmetic on the stored
  data yields. What holds is that the loader's arrays are the generator's arrays
  converted to the loader's precision, and that the two constructions fail alike (for
  the statistics files of the generator's fixed names, the two target names, and a
  positive batch size).
\<close>

theorem DataSet_is_cast_of_DataGenerator:
  assumes "target_names = [''SPDT'', ''SPDQ'']" and "0 < batch_size"
  shows "DataSet_init cast fs data_dir out_fn ''SPCAM_mean.nc'' ''SPCAM_std.nc'' feature_names
           target_names convolution dt
       = map_sum id (dataset_of_generator cast dt)
           (DataGenerator_init fs data_dir out_fn batch_size feature_names target_names
              shuffle_mode convolution)"
proof (cases "DataGenerator_get_features fs (data_dir @ out_fn) (data_dir @ ''SPCAM_mean.nc'')
                (data_dir @ ''SPCAM_std.nc'') feature_names convolution")
  case (Inl e)
  with assms show ?thesis
    by (simp add: DataSet_init_def DataGenerator_init_def get_features_cast)
next
  case f: (Inr nf)
  obtain n F where nf: "nf = (n, F)" by (cases nf)
  show ?thesis
  proof (cases "DataGenerator_get_targets fs (data_dir @ out_fn)")
    case (Inl e)
    with assms f nf show ?thesis
      by (simp add: DataSet_init_def DataGenerator_init_def get_features_cast get_targets_cast)
  next
    case (Inr T)
    with assms f nf show ?thesis
      by (simp add: DataSet_init_def DataGenerator_init_def get_features_cast get_targets_cast
          dataset_of_generator_def)
  qed
qed

theorem DataSet_is_cast_of_DataGenerator_witness:
  "DataSet_init exact_cast demo_fs ''data/'' ''out.nc'' ''SPCAM_mean.nc'' ''SPCAM_std.nc''
     [''TAP'', ''PS''] [''SPDT'', ''SPDQ''] False Float32
   = Inr (dataset_of_generator exact_cast Float32 demo_generator)
   \<and> dataset_of_generator exact_cast Float32 demo_generator = demo_dataset"
proof -
  have "[''SPDT'', ''SPDQ''] = [''SPDT'', ''SPDQ'']" and "0 < (2::nat)" by simp_all
  from DataSet_is_cast_of_DataGenerator [OF this, of exact_cast demo_fs "''data/''" "''out.nc''"
      "[''TAP'', ''PS'']" False Float32 "''batches''"]
  have "DataSet_init exact_cast demo_fs ''data/'' ''out.nc'' ''SPCAM_mean.nc'' ''SPCAM_std.nc''
     [''TAP'', ''PS''] [''SPDT'', ''SPDQ''] False Float32
     = Inr (dataset_of_generator exact_cast Float32 demo_generator)"
    by (simp add: demo_generator_init)
  moreover have "dataset_of_generator exact_cast Float32 demo_generator = demo_dataset"
    by (simp add: dataset_of_generator_def demo_generator_def demo_dataset_def demo_targets_def
        asarray_mat_def exact_cast_def)
  ultimately show ?thesis by simp
qed

text \<open>
  On data stored in float64 the loader with precision float32 holds float32 arrays and
  the generator float64 arrays.
\<close>

theorem same_precision_counterexample:
  "DataSet_init exact_cast demo_fs ''data/'' ''out.nc'' ''SPCAM_mean.nc'' ''SPCAM_std.nc''
     [''TAP'', ''PS''] [''SPDT'', ''SPDQ''] False Float32 = Inr demo_dataset
   \<and> DataGenerator_init demo_fs ''data/'' ''out.nc'' 2 [''TAP'', ''PS''] [''SPDT'', ''SPDQ'']
       ''batches'' False = Inr demo_generator
   \<and> ds_features demo_dataset \<noteq> dg_features demo_generator
   \<and> ds_targets demo_dataset \<noteq> dg_targets demo_generator"
  by (simp add: loader_defs numpy_defs demo_defs demo_generator_def demo_dataset_def
      demo_targets_def upt_5 upt_3)

subsection \<open>The loop of generate\<close>

lemma loop_head_pos: "0 < n \<Longrightarrow> loop_head n i = Some (if i < n then i else 0)"
  by (subst loop_head.simps, subst loop_head.simps) simp

lemma loop_head_Some_pos: "loop_head n i = Some j \<Longrightarrow> 0 < n"
proof (rule loop_head.raw_induct [where P = "\<lambda>n i j. 0 < n"])
  show "loop_head n i = Some j \<Longrightarrow> loop_head n i = Some j" .
next
  fix f :: "nat \<Rightarrow> nat \<Rightarrow> nat option" and n i j
  assume "\<And>i b y. f i b = Some y \<Longrightarrow> 0 < i"
    and "(if i < n then Some i else f n 0) = Some j"
  then show "0 < n" by (cases "i < n") auto
qed

lemma loop_head_zero: "loop_head 0 i = None"
  using loop_head_Some_pos [of 0 i] by (cases "loop_head 0 i") auto

lemma emap_map: "emap f (map g xs) = emap (\<lambda>x. f (g x)) xs"
  by (induction xs) simp_all

lemma emap_cong: "(\<And>x. x \<in> set xs \<Longrightarrow> f x = g x) \<Longrightarrow> emap f xs = emap g xs"
  by (induction xs) simp_all

lemma emap_Inr: "(\<And>x. x \<in> set xs \<Longrightarrow> f x = Inr (g x)) \<Longrightarrow> emap f xs = Inr (map g xs)"
  by (induction xs) simp_all

lemma emap_Inr_nth:
  "emap f xs = Inr ys \<Longrightarrow> length ys = length xs \<and> (\<forall>i<length xs. f (xs ! i) = Inr (ys ! i))"
proof (induction xs arbitrary: ys)
  case Nil
  then show ?case by simp
next
  case (Cons x xs)
  from Cons.prems obtain y ys' where y: "f x = Inr y" and ys': "emap f xs = Inr ys'"
    and ys: "ys = y # ys'"
    by (auto simp: ebind_def split: sum.splits)
  from Cons.IH [OF ys'] y ys show ?case
    by (auto simp: nth_Cons split: nat.splits)
qed

lemma gen_next_pos:
  assumes "0 < dg_n_batches g"
  shows "gen_next g st =
     Some (ebind (generate_batch g (gen_idxs st) (if gen_i st < dg_n_batches g then gen_i st else 0))
            (\<lambda>xy. Inr (xy, st\<lparr>gen_i := (if gen_i st < dg_n_batches g then gen_i st else 0) + 1\<rparr>)))"
  by (simp add: gen_next_def loop_head_pos [OF assms])

lemma gen_next_zero: "dg_n_batches g = 0 \<Longrightarrow> gen_next g st = None"
  by (simp add: gen_next_def loop_head_zero)

lemma upt_Suc_shift: "[0..<Suc k] = 0 # map Suc [0..<k]"
  by (simp add: upt_conv_Cons map_Suc_upt del: upt_Suc)

lemma gen_take_emap:
  assumes "0 < dg_n_batches g"
  shows "gen_i st \<le> dg_n_batches g \<Longrightarrow>
     gen_take g st k =
       Some (emap (\<lambda>j. generate_batch g (gen_idxs st) ((gen_i st + j) mod dg_n_batches g)) [0..<k])"
proof (induction k arbitrary: st)
  case 0
  then show ?case by simp
next
  case (Suc k)
  let ?n = "dg_n_batches g"
  let ?p = "if gen_i st < ?n then gen_i st else 0"
  have p: "?p = gen_i st mod ?n" using Suc.prems assms by auto
  show ?case
  proof (cases "generate_batch g (gen_idxs st) ?p")
    case (Inl e)
    then show ?thesis
      unfolding upt_Suc_shift using p
      by (simp add: gen_next_pos [OF assms] del: upt_Suc)
  next
    case (Inr xy)
    let ?st' = "st\<lparr>gen_i := ?p + 1\<rparr>"
    have le: "gen_i ?st' \<le> ?n" using assms by auto
    have m: "(gen_i ?st' + j) mod ?n = (gen_i st + Suc j) mod ?n" for j
      using p by (simp add: mod_Suc_eq mod_add_left_eq del: One_nat_def) (metis Suc_eq_plus1 add_Suc_right add_Suc_shift mod_add_left_eq)
    have "gen_take g ?st' k =
       Some (emap (\<lambda>j. generate_batch g (gen_idxs st) ((gen_i st + Suc j) mod ?n)) [0..<k])"
      using Suc.IH [OF le] by (simp only: m) simp
    then show ?thesis
      unfolding upt_Suc_shift using Inr p
      by (simp add: gen_next_pos [OF assms] emap_map ebind_def del: upt_Suc split: sum.splits)
  qed
qed

lemma DataGenerator_init_fields:
  assumes "DataGenerator_init fs data_dir out_name batch_size feature_names target_names
             shuffle_mode convolution = Inr g"
  shows "dg_batch_size g = batch_size" and "0 < batch_size"
    and "dg_shuffle_mode g = shuffle_mode"
    and "dg_n_batches g = dg_n_samples g div batch_size"
    and "dg_idxs g = (if shuffle_mode = ''batches'' then arange_step (dg_n_samples g) batch_size
                      else arange (dg_n_samples g))"
  using assms
  by (auto simp: DataGenerator_init_def ebind_def split: if_splits sum.splits prod.splits)

lemma demo_generator_samples_init:
  "DataGenerator_init demo_fs ''data/'' ''out.nc'' 2 [''TAP'', ''PS''] [''SPDT'', ''SPDQ'']
     ''samples'' False = Inr demo_generator_samples"
  by (simp add: loader_defs numpy_defs demo_defs demo_generator_def demo_generator_samples_def
      demo_targets_def upt_5)

lemma py_slice_upt:
  assumes "(i + 1) * b \<le> n"
  shows "py_slice [0..<n] (i * b) ((i + 1) * b) = [i * b..<(i + 1) * b]"
proof -
  have "take b (drop (i * b) [0..<n]) = [i * b..<i * b + b]"
    using assms by (simp add: take_upt drop_upt)
  then show ?thesis by (simp add: py_slice_def add.commute)
qed

lemma emap_index_upt:
  assumes "\<forall>k\<in>set ks. k < n"
  shows "emap (index_list [0..<n]) ks = Inr ks"
  using assms by (induction ks) (simp_all add: index_list_def)

lemma batch_idx_samples_constructed:
  assumes "dg_idxs g = arange (dg_n_samples g)"
      and "dg_n_batches g = dg_n_samples g div dg_batch_size g" and "0 < dg_batch_size g"
      and "i < dg_n_batches g"
  shows "batch_idx_samples g i = Inr [i * dg_batch_size g..<(i + 1) * dg_batch_size g]"
proof -
  let ?b = "dg_batch_size g" and ?n = "dg_n_samples g"
  have "(i + 1) * ?b \<le> (?n div ?b) * ?b"
    using assms(2,4) by (intro mult_le_mono1) simp
  also have "\<dots> \<le> ?n" by simp
  finally have le: "(i + 1) * ?b \<le> ?n" .
  have "emap (index_list [0..<?n]) [i * ?b..<(i + 1) * ?b] = Inr [i * ?b..<(i + 1) * ?b]"
    by (rule emap_index_upt) (use le in auto)
  then show ?thesis
    by (simp only: batch_idx_samples_def assms(1) arange_def py_slice_upt [OF le])
qed

lemma concat_batches: "concat (map (\<lambda>i. [i * b..<(i + 1) * b]) [0..<n]) = [0..<n * b]"
proof (induction n)
  case 0
  then show ?case by simp
next
  case (Suc n)
  have "[0..<n * b + b] = [0..<n * b] @ [n * b..<n * b + b]"
    by (rule upt_add_eq_append) simp
  then have "[0..<n * b] @ [n * b..<Suc n * b] = [0..<Suc n * b]"
    by (simp add: add.commute)
  with Suc show ?case by simp
qed

subsection \<open>The mode that is not batches\<close>

lemma gather_Inr:
  "\<forall>i\<in>set idx. i < length xs \<Longrightarrow> gather xs idx = Inr (map ((!) xs) idx)"
  by (induction idx) (simp_all add: gather_def index_list_def)

lemma gather_features_Inr:
  assumes "features_have_rows f n" and "\<forall>i\<in>set idx. i < n"
  shows "\<exists>x. gather_features f idx = Inr x"
proof (cases f)
  case (Flat m)
  with assms have "\<forall>i\<in>set idx. i < length (mrows m)" by (auto simp: nrows_def)
  from gather_Inr [OF this] Flat show ?thesis by simp
next
  case (Conv c m)
  with assms have "\<forall>i\<in>set idx. i < length (mrows m)" "\<forall>i\<in>set idx. i < length (cdata c)"
    by (auto simp: nrows_def)
  from gather_Inr [OF this(1)] gather_Inr [OF this(2)] Conv show ?thesis by simp
qed

lemma gather_ndarray_Inr:
  assumes "ndarray_has_rows a n" and "\<forall>i\<in>set idx. i < n"
  shows "\<exists>y. gather_ndarray a idx = Inr y"
proof (cases a)
  case (Arr0 d x)
  with assms show ?thesis by simp
next
  case (Arr1 d xs)
  with assms have "\<forall>i\<in>set idx. i < length xs" by auto
  from gather_Inr [OF this] Arr1 show ?thesis by simp
next
  case (Arr2 m)
  with assms have "\<forall>i\<in>set idx. i < length (mrows m)" by (auto simp: nrows_def)
  from gather_Inr [OF this] Arr2 show ?thesis by simp
qed

lemma emap_Inr_ex:
  "(\<And>x. x \<in> set xs \<Longrightarrow> \<exists>y. f x = Inr y) \<Longrightarrow> \<exists>ys. emap f xs = Inr ys \<and> length ys = length xs"
proof (induction xs)
  case Nil
  then show ?case by simp
next
  case (Cons x xs)
  from Cons.prems [of x] obtain y where y: "f x = Inr y" by auto
  from Cons.IH Cons.prems obtain ys where "emap f xs = Inr ys" "length ys = length xs"
    by (metis list.set_intros(2))
  with y show ?case by simp
qed

lemma demo_samples_fields:
  "dg_n_batches demo_generator_samples = 2" "dg_n_samples demo_generator_samples = 5"
  "dg_batch_size demo_generator_samples = 2"
  by (simp_all add: demo_generator_samples_def demo_generator_def)

lemma demo_samples_batch_idx:
  "batch_idx_samples demo_generator_samples 0 = Inr [0, 1]"
  "batch_idx_samples demo_generator_samples (Suc 0) = Inr [2, 3]"
  by (simp_all add: batch_idx_samples_def demo_generator_samples_def demo_generator_def
      py_slice_def index_list_def)

lemma demo_samples_gather:
  "gather_batch demo_generator_samples [0, 1] = Inr (demo_pass_samples ! 0)"
  "gather_batch demo_generator_samples [2, 3] = Inr (demo_pass_samples ! Suc 0)"
  by (simp_all add: gather_batch_def gather_def index_list_def demo_generator_samples_def
      demo_generator_def demo_targets_def demo_pass_samples_def)

lemma demo_samples_batches:
  "generate_batch demo_generator_samples idxs 0 = Inr (demo_pass_samples ! 0)"
  "generate_batch demo_generator_samples idxs (Suc 0) = Inr (demo_pass_samples ! Suc 0)"
proof -
  have m: "dg_shuffle_mode demo_generator_samples \<noteq> ''batches''"
    by (simp add: demo_generator_samples_def)
  show "generate_batch demo_generator_samples idxs 0 = Inr (demo_pass_samples ! 0)"
    using m demo_samples_gather(1)
    by (simp add: generate_batch_def demo_samples_batch_idx gather_batch_def)
  show "generate_batch demo_generator_samples idxs (Suc 0) = Inr (demo_pass_samples ! Suc 0)"
    using m demo_samples_gather(2)
    by (simp add: generate_batch_def demo_samples_batch_idx gather_batch_def)
qed

lemma demo_pass_samples_eval:
  "gen_take demo_generator_samples (generate rev demo_generator_samples True) 2
     = Some (Inr demo_pass_samples)"
proof -
  have n: "0 < dg_n_batches demo_generator_samples" by (simp add: demo_samples_fields)
  have p: "demo_pass_samples = [demo_pass_samples ! 0, demo_pass_samples ! Suc 0]"
    by (simp add: demo_pass_samples_def)
  have "gen_take demo_generator_samples st (Suc (Suc 0))
          = Some (Inr [demo_pass_samples ! 0, demo_pass_samples ! Suc 0])" if "gen_i st = 0" for st
    using that by (simp add: gen_next_pos [OF n] demo_samples_fields demo_samples_batches)
  from this [of "generate rev demo_generator_samples True"] show ?thesis
    using p by (simp add: generate_def eval_nat_numeral)
qed

text \<open>
  Claim C3: in a mode other than \<^verbatim>\<open>batches\<close> any sample may be placed in any batch
  position, and the sample indices of one pass of \<open>n_batches\<close> batches are the full range
  \<open>0..n_samples\<close>, each once. What the pass does whatever the order of the samples: its
  \<open>n_batches\<close> pairs are gathered at \<open>n_batches\<close> lists of \<open>batch_size\<close> sample indices
  each, these indices are distinct and lie in \<open>0..n_samples\<close>, and \<open>n_batches\<close> is the
  floor of \<open>n_samples / batch_size\<close>, so that they are the full range exactly when the
  batch size divides the number of samples. The pass yields all its pairs when the
  features and the targets hold a row for every sample. Which sample comes at which
  position is left open here.
\<close>

theorem pass_selects_distinct_samples:
  assumes "DataGenerator_init fs data_dir out_name batch_size feature_names target_names
             shuffle_mode convolution = Inr g"
      and "shuffle_mode \<noteq> ''batches''"
  shows "\<exists>idx. gen_take g (generate rnd g shuffle) (dg_n_batches g)
                  = Some (emap (gather_batch g) idx)
           \<and> length idx = dg_n_batches g
           \<and> (\<forall>batch_idx\<in>set idx. length batch_idx = batch_size)
           \<and> distinct (concat idx)
           \<and> set (concat idx) \<subseteq> {0..<dg_n_samples g}
           \<and> dg_n_batches g = dg_n_samples g div batch_size
           \<and> (mset (concat idx) = mset [0..<dg_n_samples g]) = (batch_size dvd dg_n_samples g)
           \<and> (features_have_rows (dg_features g) (dg_n_samples g)
                \<and> ndarray_has_rows (dg_targets g) (dg_n_samples g) \<longrightarrow>
              (\<exists>pass. gen_take g (generate rnd g shuffle) (dg_n_batches g) = Some (Inr pass)
                 \<and> length pass = dg_n_batches g))"
proof -
  note f = DataGenerator_init_fields [OF assms(1)]
  let ?b = "dg_batch_size g" and ?n = "dg_n_samples g" and ?k = "dg_n_batches g"
  let ?st = "generate rnd g shuffle"
  let ?idx = "map (\<lambda>i. [i * ?b..<(i + 1) * ?b]) [0..<?k]"
  have mode: "dg_shuffle_mode g \<noteq> ''batches''" using f(3) assms(2) by simp
  have idxs: "dg_idxs g = arange ?n" using f(5) assms(2) by simp
  have nb: "?k = ?n div ?b" and b: "0 < ?b" and bs: "?b = batch_size" using f by simp_all
  have kb: "?k * ?b \<le> ?n" using nb by simp
  have batch: "generate_batch g idxs i = gather_batch g [i * ?b..<(i + 1) * ?b]"
    if "i < ?k" for i idxs
    using batch_idx_samples_constructed [OF idxs nb b that] mode
    by (simp add: generate_batch_def gather_batch_def)
  have take: "gen_take g ?st ?k = Some (emap (gather_batch g) ?idx)"
  proof (cases "?k = 0")
    case True
    then show ?thesis by simp
  next
    case False
    then have n: "0 < ?k" by simp
    have "gen_take g ?st ?k =
        Some (emap (\<lambda>j. generate_batch g (gen_idxs ?st) ((gen_i ?st + j) mod ?k)) [0..<?k])"
      by (rule gen_take_emap [OF n]) (simp add: generate_def)
    also have "emap (\<lambda>j. generate_batch g (gen_idxs ?st) ((gen_i ?st + j) mod ?k)) [0..<?k]
        = emap (\<lambda>j. gather_batch g [j * ?b..<(j + 1) * ?b]) [0..<?k]"
      by (rule emap_cong) (simp add: generate_def batch)
    also have "\<dots> = emap (gather_batch g) ?idx"
      by (simp only: emap_map)
    finally show ?thesis .
  qed
  have c: "concat ?idx = [0..<?k * ?b]" by (rule concat_batches)
  have sub: "set (concat ?idx) \<subseteq> {0..<?n}" unfolding c using kb by auto
  have len: "\<forall>batch_idx\<in>set ?idx. length batch_idx = ?b" by auto
  have "(mset [0..<?k * ?b] = mset [0..<?n]) = (?k * ?b = ?n)"
  proof
    assume "mset [0..<?k * ?b] = mset [0..<?n]"
    then have "size (mset [0..<?k * ?b]) = size (mset [0..<?n])" by simp
    then show "?k * ?b = ?n" by simp
  qed simp
  also have "\<dots> = (?b dvd ?n)"
    using nb by (metis dvd_div_mult_self dvd_triv_right)
  finally have d: "(mset (concat ?idx) = mset [0..<?n]) = (?b dvd ?n)" by (simp only: c)
  have ok: "\<exists>pass. gen_take g ?st ?k = Some (Inr pass) \<and> length pass = ?k"
    if rows: "features_have_rows (dg_features g) ?n" "ndarray_has_rows (dg_targets g) ?n"
  proof -
    have "\<exists>xy. gather_batch g batch_idx = Inr xy" if "batch_idx \<in> set ?idx" for batch_idx
    proof -
      have "set batch_idx \<subseteq> set (concat ?idx)" using that by (simp only: set_concat) blast
      with sub have "set batch_idx \<subseteq> {0..<?n}" by (rule order_trans [rotated])
      then have "\<forall>i\<in>set batch_idx. i < ?n" by (simp only: subset_eq atLeastLessThan_iff) blast
      from gather_features_Inr [OF rows(1) this] gather_ndarray_Inr [OF rows(2) this]
      show ?thesis by (auto simp: gather_batch_def)
    qed
    from emap_Inr_ex [of ?idx "gather_batch g", OF this]
    obtain pass where "emap (gather_batch g) ?idx = Inr pass" "length pass = length ?idx"
      by blast
    then show ?thesis by (simp add: take)
  qed
  have l: "length ?idx = ?k" by simp
  have dist: "distinct (concat ?idx)" unfolding c by simp
  have ok': "features_have_rows (dg_features g) ?n \<and> ndarray_has_rows (dg_targets g) ?n \<longrightarrow>
      (\<exists>pass. gen_take g ?st ?k = Some (Inr pass) \<and> length pass = ?k)"
    using ok by blast
  have "gen_take g ?st ?k = Some (emap (gather_batch g) ?idx)
      \<and> length ?idx = ?k
      \<and> (\<forall>batch_idx\<in>set ?idx. length batch_idx = batch_size)
      \<and> distinct (concat ?idx)
      \<and> set (concat ?idx) \<subseteq> {0..<?n}
      \<and> ?k = ?n div batch_size
      \<and> (mset (concat ?idx) = mset [0..<?n]) = (batch_size dvd ?n)
      \<and> (features_have_rows (dg_features g) ?n \<and> ndarray_has_rows (dg_targets g) ?n \<longrightarrow>
          (\<exists>pass. gen_take g ?st ?k = Some (Inr pass) \<and> length pass = ?k))"
    using take l len dist sub nb d ok' unfolding bs by blast
  then show ?thesis by (rule exI [of _ ?idx])
qed

theorem pass_selects_distinct_samples_witness:
  "\<exists>idx pass.
      gen_take demo_generator_samples (generate rev demo_generator_samples True) 2
        = Some (emap (gather_batch demo_generator_samples) idx)
      \<and> gen_take demo_generator_samples (generate rev demo_generator_samples True) 2
        = Some (Inr pass)
      \<and> length pass = 2 \<and> length idx = 2 \<and> (\<forall>batch_idx\<in>set idx. length batch_idx = 2)
      \<and> distinct (concat idx) \<and> set (concat idx) \<subseteq> {0..<5}
      \<and> mset (concat idx) \<noteq> mset [0..<5]"
proof -
  have m: "''samples'' \<noteq> ''batches''" by simp
  have r: "features_have_rows (dg_features demo_generator_samples) 5"
    "ndarray_has_rows (dg_targets demo_generator_samples) 5"
    by (simp_all add: demo_generator_samples_def demo_generator_def demo_targets_def nrows_def)
  have d: "\<not> (2::nat) dvd 5" by simp
  from pass_selects_distinct_samples [OF demo_generator_samples_init m, of rev True]
  show ?thesis
    unfolding demo_samples_fields using r d by blast
qed

text \<open>
  Five samples in batches of two: the pass yields the samples 0, 1 and the samples 2, 3,
  and sample 4 is in no batch.
\<close>

theorem full_range_counterexample:
  "DataGenerator_init demo_fs ''data/'' ''out.nc'' 2 [''TAP'', ''PS''] [''SPDT'', ''SPDQ'']
     ''samples'' False = Inr demo_generator_samples
   \<and> dg_n_samples demo_generator_samples = 5 \<and> dg_n_batches demo_generator_samples = 2
   \<and> gen_take demo_generator_samples (generate rev demo_generator_samples True) 2
       = Some (Inr demo_pass_samples)
   \<and> batch_idx_samples demo_generator_samples 0 = Inr [0, 1]
   \<and> batch_idx_samples demo_generator_samples 1 = Inr [2, 3]
   \<and> gather_batch demo_generator_samples [0, 1] = Inr (demo_pass_samples ! 0)
   \<and> gather_batch demo_generator_samples [2, 3] = Inr (demo_pass_samples ! 1)
   \<and> mset ([0, 1] @ [2, 3]) \<noteq> mset [0..<dg_n_samples demo_generator_samples]"
proof -
  have "mset ([0, 1] @ [2, 3]) \<noteq> mset [0..<dg_n_samples demo_generator_samples]"
  proof
    assume "mset ([0, 1] @ [2, 3]) = mset [0..<dg_n_samples demo_generator_samples]"
    then have "size (mset ([0, 1] @ [2, 3 :: nat]))
                 = size (mset [0..<dg_n_samples demo_generator_samples])"
      by simp
    then show False by (simp add: demo_samples_fields)
  qed
  then show ?thesis
    using demo_generator_samples_init demo_pass_samples_eval demo_samples_batch_idx
      demo_samples_gather
    by (simp add: demo_samples_fields)
qed

lemma generate_batch_samples:
  assumes "dg_shuffle_mode g \<noteq> ''batches''"
  shows "generate_batch g idxs i = generate_batch g idxs' i"
  using assms by (simp add: generate_batch_def)

lemma gen_take_samples:
  assumes "dg_shuffle_mode g \<noteq> ''batches''" and "gen_i st = 0" and "gen_i st' = 0"
  shows "gen_take g st k = gen_take g st' k"
proof (cases "dg_n_batches g = 0")
  case True
  then show ?thesis by (cases k) (simp_all add: gen_next_zero)
next
  case False
  then have n: "0 < dg_n_batches g" by simp
  have "gen_take g st k =
      Some (emap (\<lambda>j. generate_batch g (gen_idxs st) ((gen_i st + j) mod dg_n_batches g)) [0..<k])"
    by (rule gen_take_emap [OF n]) (simp add: assms(2))
  also have "\<dots> =
      Some (emap (\<lambda>j. generate_batch g (gen_idxs st') ((gen_i st' + j) mod dg_n_batches g)) [0..<k])"
    by (simp only: assms(2,3) generate_batch_samples [OF assms(1), of "gen_idxs st" _ "gen_idxs st'"])
  also have "\<dots> = gen_take g st' k"
    by (rule gen_take_emap [OF n, symmetric]) (simp add: assms(3))
  finally show ?thesis .
qed

text \<open>
  Claim C4: in a mode other than \<^verbatim>\<open>batches\<close> the batches do not depend on the
  \<^verbatim>\<open>shuffle\<close> argument nor on the permutation drawn: the loop body reads the indices
  from \<^verbatim>\<open>self.idxs\<close> and never from the shuffled copy, so that the batch at position
  \<open>i\<close> gathers the samples \<open>i * batch_size\<close> up to \<open>(i + 1) * batch_size - 1\<close> in this
  order, step \<open>j\<close> of the generator is the batch at position \<open>j mod n_batches\<close>, and
  \<^verbatim>\<open>generate(shuffle=True)\<close> and \<^verbatim>\<open>generate(shuffle=False)\<close> yield the same sequence.
\<close>

theorem shuffle_has_no_effect:
  assumes "DataGenerator_init fs data_dir out_name batch_size feature_names target_names
             shuffle_mode convolution = Inr g"
      and "shuffle_mode \<noteq> ''batches''"
  shows "gen_take g (generate rnd g True) k = gen_take g (generate rnd' g False) k
       \<and> (\<forall>i<dg_n_batches g. \<forall>idxs.
             generate_batch g idxs i =
               ebind (gather_features (dg_features g) [i * batch_size..<(i + 1) * batch_size])
                 (\<lambda>x. ebind (gather_ndarray (dg_targets g) [i * batch_size..<(i + 1) * batch_size])
                 (\<lambda>y. Inr (x, y))))
       \<and> (0 < dg_n_batches g \<longrightarrow>
             gen_take g (generate rnd g shuffle) k =
               Some (emap (\<lambda>j. generate_batch g [] (j mod dg_n_batches g)) [0..<k]))"
proof -
  note f = DataGenerator_init_fields [OF assms(1)]
  have mode: "dg_shuffle_mode g \<noteq> ''batches''" using f(3) assms(2) by simp
  have idxs: "dg_idxs g = arange (dg_n_samples g)" using f(5) assms(2) by simp
  have nb: "dg_n_batches g = dg_n_samples g div dg_batch_size g"
    and b: "0 < dg_batch_size g" using f by simp_all
  have 1: "gen_take g (generate rnd g True) k = gen_take g (generate rnd' g False) k"
    by (rule gen_take_samples [OF mode]) (simp_all add: generate_def)
  have 2: "generate_batch g idxs i =
               ebind (gather_features (dg_features g) [i * batch_size..<(i + 1) * batch_size])
                 (\<lambda>x. ebind (gather_ndarray (dg_targets g) [i * batch_size..<(i + 1) * batch_size])
                 (\<lambda>y. Inr (x, y)))"
    if "i < dg_n_batches g" for i idxs
    using batch_idx_samples_constructed [OF idxs nb b that] mode f(1)
    by (simp add: generate_batch_def)
  have 3: "gen_take g (generate rnd g shuffle) k =
               Some (emap (\<lambda>j. generate_batch g [] (j mod dg_n_batches g)) [0..<k])"
    if n: "0 < dg_n_batches g"
  proof -
    have "gen_take g (generate rnd g shuffle) k =
       Some (emap (\<lambda>j. generate_batch g (gen_idxs (generate rnd g shuffle))
                          ((gen_i (generate rnd g shuffle) + j) mod dg_n_batches g)) [0..<k])"
      by (rule gen_take_emap [OF n]) (simp add: generate_def)
    also have "\<dots> = Some (emap (\<lambda>j. generate_batch g [] (j mod dg_n_batches g)) [0..<k])"
    proof -
      have "generate_batch g (gen_idxs (generate rnd g shuffle))
              ((gen_i (generate rnd g shuffle) + j) mod dg_n_batches g)
          = generate_batch g [] (j mod dg_n_batches g)" for j
        using generate_batch_samples [OF mode, of "gen_idxs (generate rnd g shuffle)" _ "[]"]
        by (simp add: generate_def)
      then show ?thesis by (simp only:)
    qed
    finally show ?thesis .
  qed
  from 1 2 3 show ?thesis by blast
qed

theorem shuffle_has_no_effect_witness:
  "gen_take demo_generator_samples (generate rev demo_generator_samples True) 3
     = gen_take demo_generator_samples (generate rev demo_generator_samples False) 3
   \<and> gen_idxs (generate rev demo_generator_samples True) = [4, 3, 2, 1, 0]
   \<and> generate_batch demo_generator_samples [4, 3, 2, 1, 0] 1
     = Inr (Flat \<lparr>mdtype = Float64, ncols = 3, mrows = [[0, 0, 0], [1, 1 / 2, 1]]\<rparr>,
            Arr2 \<lparr>mdtype = Float64, ncols = 4,
                  mrows = [[3000, 8000, 32500000, 45000000],
                           [4000, 9000, 35000000, 47500000]]\<rparr>)"
proof -
  have m: "''samples'' \<noteq> ''batches''" by simp
  have n: "(1::nat) < dg_n_batches demo_generator_samples"
    by (simp add: demo_generator_samples_def demo_generator_def)
  note t = shuffle_has_no_effect [OF demo_generator_samples_init m, of rev 3 rev]
  from t have "gen_take demo_generator_samples (generate rev demo_generator_samples True) 3
     = gen_take demo_generator_samples (generate rev demo_generator_samples False) 3"
    by blast
  moreover from t n have "generate_batch demo_generator_samples [4, 3, 2, 1, 0] 1 =
     ebind (gather_features (dg_features demo_generator_samples) [1 * 2..<(1 + 1) * 2])
       (\<lambda>x. ebind (gather_ndarray (dg_targets demo_generator_samples) [1 * 2..<(1 + 1) * 2])
       (\<lambda>y. Inr (x, y)))"
    by blast
  then have "generate_batch demo_generator_samples [4, 3, 2, 1, 0] 1
     = Inr (Flat \<lparr>mdtype = Float64, ncols = 3, mrows = [[0, 0, 0], [1, 1 / 2, 1]]\<rparr>,
            Arr2 \<lparr>mdtype = Float64, ncols = 4,
                  mrows = [[3000, 8000, 32500000, 45000000],
                           [4000, 9000, 35000000, 47500000]]\<rparr>)"
    by (simp add: demo_generator_samples_def demo_generator_def demo_targets_def gather_def
        index_list_def upt_rec [of 2] upt_rec [of 3] eval_nat_numeral)
  moreover have "gen_idxs (generate rev demo_generator_samples True) = [4, 3, 2, 1, 0]"
    by (simp add: generate_def demo_generator_samples_def demo_generator_def)
  ultimately show ?thesis by simp
qed

subsection \<open>Cycling\<close>

text \<open>
  Claim C8: within one invocation of \<^verbatim>\<open>generate\<close> the pair yielded at step
  \<open>k + n_batches\<close> is the pair yielded at step \<open>k\<close>: the indices are copied and shuffled
  once, before the loop, no step changes them, and the sequence has period \<open>n_batches\<close>.
  Once the first pass has yielded its \<open>n_batches\<close> pairs, every further step yields, and
  the first \<open>k\<close> pairs are those of the first pass repeated.
\<close>

theorem generate_is_periodic:
  assumes "0 < dg_n_batches g"
      and "gen_take g (generate rnd g shuffle) (dg_n_batches g) = Some (Inr pass)"
  shows "gen_take g (generate rnd g shuffle) k
           = Some (Inr (map (\<lambda>j. pass ! (j mod dg_n_batches g)) [0..<k]))
       \<and> (\<exists>ys. gen_take g (generate rnd g shuffle) (k + dg_n_batches g + 1) = Some (Inr ys)
              \<and> ys ! (k + dg_n_batches g) = ys ! k)
       \<and> (\<forall>st xy st'. gen_next g st = Some (Inr (xy, st')) \<longrightarrow> gen_idxs st' = gen_idxs st)"
proof -
  let ?n = "dg_n_batches g" and ?st = "generate rnd g shuffle"
  let ?b = "\<lambda>j. generate_batch g (gen_idxs ?st) ((gen_i ?st + j) mod ?n)"
  have i0: "gen_i ?st \<le> ?n" by (simp add: generate_def)
  have take: "gen_take g ?st k = Some (emap ?b [0..<k])" for k
    by (rule gen_take_emap [OF assms(1) i0])
  from assms(2) have "emap ?b [0..<?n] = Inr pass" by (simp add: take)
  from emap_Inr_nth [OF this] have pass: "?b j = Inr (pass ! j)" if "j < ?n" for j
    using that by simp
  have per: "?b j = Inr (pass ! (j mod ?n))" for j
  proof -
    have "?b j = ?b (j mod ?n)" by (simp add: generate_def)
    also have "\<dots> = Inr (pass ! (j mod ?n))" using assms(1) by (intro pass) simp
    finally show ?thesis .
  qed
  have all: "gen_take g ?st k = Some (Inr (map (\<lambda>j. pass ! (j mod ?n)) [0..<k]))" for k
    unfolding take by (rule arg_cong [where f = Some], rule emap_Inr) (rule per)
  have "map (\<lambda>j. pass ! (j mod ?n)) [0..<k + ?n + 1] ! (k + ?n)
      = map (\<lambda>j. pass ! (j mod ?n)) [0..<k + ?n + 1] ! k"
    by (simp add: nth_append del: upt_Suc)
  with all [of "k + ?n + 1"]
  have ex: "\<exists>ys. gen_take g ?st (k + ?n + 1) = Some (Inr ys) \<and> ys ! (k + ?n) = ys ! k"
    by blast
  have idx: "gen_idxs st' = gen_idxs st" if "gen_next g st = Some (Inr (xy, st'))" for st xy st'
    using that by (auto simp: gen_next_def ebind_def split: option.splits sum.splits)
  from all [of k] ex idx show ?thesis by blast
qed

lemma demo_generator_next:
  "gen_next demo_generator st =
     Some (ebind (generate_batch demo_generator (gen_idxs st) (if gen_i st < 2 then gen_i st else 0))
            (\<lambda>xy. Inr (xy, st\<lparr>gen_i := (if gen_i st < 2 then gen_i st else 0) + 1\<rparr>)))"
proof -
  have n: "0 < dg_n_batches demo_generator" "dg_n_batches demo_generator = 2"
    by (simp_all add: demo_generator_def)
  show ?thesis using gen_next_pos [OF n(1), of st] by (simp only: n(2))
qed

lemma demo_batches:
  "generate_batch demo_generator [4, 2, 0] 0 = Inr (demo_pass ! 0)"
  "generate_batch demo_generator [4, 2, 0] (Suc 0) = Inr (demo_pass ! Suc 0)"
  by (simp_all add: generate_batch_def index_list_def py_slice_def demo_generator_def
      demo_targets_def demo_pass_def)

lemma demo_pass_eval:
  "gen_take demo_generator (generate rev demo_generator True) 2 = Some (Inr demo_pass)"
proof -
  have g: "generate rev demo_generator True = \<lparr>gen_idxs = [4, 2, 0], gen_i = 0\<rparr>"
    by (simp add: generate_def demo_generator_def)
  have p: "demo_pass = [demo_pass ! 0, demo_pass ! Suc 0]" by (simp add: demo_pass_def)
  have "gen_take demo_generator \<lparr>gen_idxs = [4, 2, 0], gen_i = 0\<rparr> (Suc (Suc 0))
          = Some (Inr [demo_pass ! 0, demo_pass ! Suc 0])"
    by (simp add: demo_generator_next demo_batches)
  then show ?thesis
    using p by (simp add: g eval_nat_numeral)
qed

theorem generate_is_periodic_witness:
  "gen_take demo_generator (generate rev demo_generator True) 2 = Some (Inr demo_pass)
   \<and> gen_take demo_generator (generate rev demo_generator True) 3
       = Some (Inr [demo_pass ! 0, demo_pass ! 1, demo_pass ! 0])"
proof -
  have n: "0 < dg_n_batches demo_generator" and n2: "dg_n_batches demo_generator = 2"
    by (simp_all add: demo_generator_def)
  have p: "gen_take demo_generator (generate rev demo_generator True)
             (dg_n_batches demo_generator) = Some (Inr demo_pass)"
    by (simp only: n2 demo_pass_eval)
  from generate_is_periodic [OF n p, of 3]
  have "gen_take demo_generator (generate rev demo_generator True) 3
       = Some (Inr (map (\<lambda>j. demo_pass ! (j mod 2)) [0..<3]))"
    by (simp only: n2)
  then show ?thesis
    by (simp add: demo_pass_eval upt_3)
qed

subsection \<open>The mode batches and the trailing samples\<close>

text \<open>
  What holds of every batch in mode \<^verbatim>\<open>batches\<close>, for any shuffle that permutes the
  offsets: the batch is the slice of the features and of the targets from a multiple of
  the batch size that lies below the number of samples, up to one batch size further,
  cut at the end of the data.
\<close>

lemma arange_step_offsets:
  assumes "0 < b" and "x \<in> set (arange_step n b)"
  shows "\<exists>j. x = j * b \<and> j * b < n"
proof -
  from assms(2) have "x \<in> (\<lambda>j. j * b) ` {0..<(n + b - 1) div b}"
    by (simp add: arange_step_def)
  then have "\<exists>j. x = j * b \<and> j < (n + b - 1) div b"
    by auto
  then obtain j where x: "x = j * b" and j: "j < (n + b - 1) div b"
    by blast
  from j have "Suc j \<le> (n + b - 1) div b" by simp
  then have "Suc j * b \<le> ((n + b - 1) div b) * b" by (rule mult_le_mono1)
  also have "\<dots> \<le> n + b - 1" by simp
  finally have "j * b < n" using assms(1) by simp
  with x show ?thesis by blast
qed

lemma length_arange_step: "0 < b \<Longrightarrow> n div b \<le> length (arange_step n b)"
  by (simp add: arange_step_def div_le_mono)

lemma batches_mode_window:
  assumes "DataGenerator_init fs data_dir out_name batch_size feature_names target_names
             ''batches'' convolution = Inr g"
      and "mset (rnd (dg_idxs g)) = mset (dg_idxs g)" and "i < dg_n_batches g"
  shows "\<exists>j. j * batch_size < dg_n_samples g
           \<and> generate_batch g (gen_idxs (generate rnd g shuffle)) i =
               ebind (slice_ndarray (dg_targets g) (j * batch_size) (j * batch_size + batch_size))
                 (\<lambda>y. Inr (slice_features (dg_features g) (j * batch_size)
                               (j * batch_size + batch_size), y))"
proof -
  note f = DataGenerator_init_fields [OF assms(1)]
  let ?xs = "gen_idxs (generate rnd g shuffle)"
  have m: "mset ?xs = mset (dg_idxs g)" using assms(2) by (simp add: generate_def)
  have idxs: "dg_idxs g = arange_step (dg_n_samples g) batch_size" using f(5) by simp
  have "length ?xs = length (dg_idxs g)" using m by (rule mset_eq_length)
  with length_arange_step [OF f(2), of "dg_n_samples g"] assms(3) f(4) idxs
  have i: "i < length ?xs" by simp
  then have "?xs ! i \<in> set ?xs" by simp
  also have "set ?xs = set (dg_idxs g)" using m by (rule mset_eq_setD)
  finally have "?xs ! i \<in> set (arange_step (dg_n_samples g) batch_size)" by (simp only: idxs)
  from arange_step_offsets [OF f(2) this] obtain j where
    j: "?xs ! i = j * batch_size" "j * batch_size < dg_n_samples g" by blast
  have "generate_batch g ?xs i =
               ebind (slice_ndarray (dg_targets g) (j * batch_size) (j * batch_size + batch_size))
                 (\<lambda>y. Inr (slice_features (dg_features g) (j * batch_size)
                               (j * batch_size + batch_size), y))"
    using i j(1) f(1,3) by (simp add: generate_batch_def index_list_def)
  with j(2) show ?thesis by blast
qed

text \<open>
  Claim C6: \<open>n_batches\<close> is the floor of \<open>n_samples / batch_size\<close> and the samples of
  the trailing remainder, of index \<open>n_batches * batch_size\<close> and above, are never yielded.
  In mode \<^verbatim>\<open>batches\<close> the index set \<^verbatim>\<open>np.arange(0, n_samples, batch_size)\<close> holds the
  offset of the incomplete last batch too: with five samples and batch size 2 the offsets
  are 0, 2 and 4 for two batches, and when the shuffle brings offset 4 among the first
  two, the pass yields sample 4.
\<close>

theorem remainder_sample_is_yielded:
  "DataGenerator_init demo_fs ''data/'' ''out.nc'' 2 [''TAP'', ''PS''] [''SPDT'', ''SPDQ'']
     ''batches'' False = Inr demo_generator
   \<and> dg_n_samples demo_generator = 5 \<and> dg_n_batches demo_generator = 2
   \<and> dg_idxs demo_generator = [0, 2, 4]
   \<and> gen_idxs (generate rev demo_generator True) = [4, 2, 0]
   \<and> gen_take demo_generator (generate rev demo_generator True) 2 = Some (Inr demo_pass)
   \<and> slice_features (dg_features demo_generator) 4 6 = fst (demo_pass ! 0)
   \<and> slice_ndarray (dg_targets demo_generator) 4 6 = Inr (snd (demo_pass ! 0))"
  using demo_generator_init demo_pass_eval
  by (simp add: generate_def demo_generator_def demo_targets_def demo_pass_def py_slice_def)

text \<open>
  Claim C7: in mode \<^verbatim>\<open>batches\<close> every batch is a window of \<open>batch_size\<close> adjacent
  samples that starts at a multiple of the batch size. On the same input the batch at
  offset 4 is the single sample 4, for a batch size of 2.
\<close>

theorem short_batch_is_yielded:
  "generate_batch demo_generator (gen_idxs (generate rev demo_generator True)) 0
     = Inr (Flat \<lparr>mdtype = Float64, ncols = 3, mrows = [[2, 1, 2]]\<rparr>,
            Arr2 \<lparr>mdtype = Float64, ncols = 4,
                  mrows = [[5000, 10000, 37500000, 50000000]]\<rparr>)
   \<and> dg_batch_size demo_generator = 2
   \<and> mset (rev (dg_idxs demo_generator)) = mset (dg_idxs demo_generator)"
  by (simp add: generate_def generate_batch_def index_list_def py_slice_def demo_generator_def
      demo_targets_def)

end
